theory Spec2Isabelle
  imports Complex_Main
begin

section \<open>Values: errors, numbers that may fail to be numbers, tensors\<close>

text \<open>
  The exceptions the modelled code can raise. \<open>RuntimeError\<close> is what the tensor
  library raises when a reshape does not fit or when a categorical draw of zero samples is
  requested; \<open>NameError\<close> carries the name that is not bound.
\<close>

datatype error = IndexError | ZeroDivisionError | RuntimeError | TypeError | NameError string

text \<open>
  Tensor entries are modelled as real numbers. A scalar that the library computes as
  \<open>0 / 0\<close> (the mean of no elements, a zero sum divided by a zero element count) is
  not a number: such results have type \<open>num\<close>, where \<open>None\<close> stands for a result
  that is no finite number (NaN, or an infinity from a division by zero).
\<close>

type_synonym num = "real option"

definition mean :: "real list \<Rightarrow> num" where
  "mean xs = (if xs = [] then None else Some (sum_list xs / real (length xs)))"

definition mean_num :: "num list \<Rightarrow> num" where
  "mean_num xs = (if xs = [] \<or> None \<in> set xs then None
                  else Some (sum_list (map the xs) / real (length xs)))"

definition sum_num :: "num list \<Rightarrow> num" where
  "sum_num xs = (if None \<in> set xs then None else Some (sum_list (map the xs)))"

definition add_num :: "num \<Rightarrow> num \<Rightarrow> num" where
  "add_num a b = (case a of None \<Rightarrow> None | Some u \<Rightarrow> (case b of None \<Rightarrow> None | Some v \<Rightarrow> Some (u + v)))"

definition div_num :: "num \<Rightarrow> real \<Rightarrow> num" where
  "div_num a y = (case a of None \<Rightarrow> None | Some u \<Rightarrow> (if y = 0 then None else Some (u / y)))"

text \<open>
  A tensor is its shape and its entries in row-major order; a well-formed tensor has as many
  entries as its shape says.
\<close>

record tensor =
  shape :: "nat list"
  entries :: "real list"

definition numel :: "tensor \<Rightarrow> nat" where
  "numel a = prod_list (shape a)"

definition wf_tensor :: "tensor \<Rightarrow> bool" where
  "wf_tensor a = (length (entries a) = prod_list (shape a))"

definition vector :: "real list \<Rightarrow> tensor" where
  "vector xs = \<lparr>shape = [length xs], entries = xs\<rparr>"

text \<open>\<open>a.reshape(s)\<close>: the same entries under a new shape of the same element count.\<close>

definition reshape :: "tensor \<Rightarrow> nat list \<Rightarrow> error + tensor" where
  "reshape a s = (if prod_list s = numel a then Inr \<lparr>shape = s, entries = entries a\<rparr>
                  else Inl RuntimeError)"

text \<open>\<open>a.flatten()\<close>: one dimension holding every entry.\<close>

definition flatten :: "tensor \<Rightarrow> tensor" where
  "flatten a = \<lparr>shape = [numel a], entries = entries a\<rparr>"

text \<open>
  \<open>reshape_coefs(t) = t.reshape((t.shape[0], 1, 1, 1))\<close>. Reading \<open>shape[0]\<close> of a
  tensor without dimensions raises IndexError.
\<close>

definition reshape_coefs :: "tensor \<Rightarrow> error + tensor" where
  "reshape_coefs t = (case shape t of [] \<Rightarrow> Inl IndexError | b # rest \<Rightarrow> reshape t [b, 1, 1, 1])"

section \<open>Tensor arithmetic\<close>

text \<open>
  Binary tensor operators broadcast: the shapes are aligned at their last dimension, the
  shorter one is padded with ones in front, and a dimension of size one is repeated to the
  size of its partner. \<open>expand s r xs\<close> repeats the entries \<open>xs\<close> of shape \<open>s\<close> to
  the shape \<open>r\<close>. The library raises when two sizes differ and neither is one; the data
  model fixes the shapes of the latents (rank four) and of the oracle's answer (the shape
  of its input), so these definitions are read only on shapes that fit.
\<close>

fun expand :: "nat list \<Rightarrow> nat list \<Rightarrow> real list \<Rightarrow> real list" where
  "expand (m # ms) (r # rs) xs =
     (if m = r
      then concat (map (\<lambda>i. expand ms rs (take (prod_list ms) (drop (i * prod_list ms) xs))) [0..<r])
      else concat (replicate r (expand ms rs xs)))"
| "expand ms rs xs = xs"

definition pad_shape :: "nat \<Rightarrow> nat list \<Rightarrow> nat list" where
  "pad_shape k s = replicate (k - length s) 1 @ s"

definition broadcast_shape :: "nat list \<Rightarrow> nat list \<Rightarrow> nat list" where
  "broadcast_shape s1 s2 =
     (let k = max (length s1) (length s2)
      in map2 (\<lambda>m n. if m = 1 then n else m) (pad_shape k s1) (pad_shape k s2))"

definition broadcast :: "(real \<Rightarrow> real \<Rightarrow> real) \<Rightarrow> tensor \<Rightarrow> tensor \<Rightarrow> tensor" where
  "broadcast f a b =
     (let k = max (length (shape a)) (length (shape b));
          r = broadcast_shape (shape a) (shape b)
      in \<lparr>shape = r,
          entries = map2 f (expand (pad_shape k (shape a)) r (entries a))
                          (expand (pad_shape k (shape b)) r (entries b))\<rparr>)"

definition tadd :: "tensor \<Rightarrow> tensor \<Rightarrow> tensor" where
  "tadd a b = broadcast (\<lambda>u v. u + v) a b"

definition tsub :: "tensor \<Rightarrow> tensor \<Rightarrow> tensor" where
  "tsub a b = broadcast (\<lambda>u v. u - v) a b"

definition tmul :: "tensor \<Rightarrow> tensor \<Rightarrow> tensor" where
  "tmul a b = broadcast (\<lambda>u v. u * v) a b"

text \<open>An operator between a tensor and a plain number acts on every entry.\<close>

definition tmap :: "(real \<Rightarrow> real) \<Rightarrow> tensor \<Rightarrow> tensor" where
  "tmap f a = \<lparr>shape = shape a, entries = map f (entries a)\<rparr>"

text \<open>
  Slices along the first dimension, \<open>a[:k]\<close> and \<open>a[k:]\<close>. The program slices only
  tensors that have a first dimension.
\<close>

definition take_rows :: "nat \<Rightarrow> tensor \<Rightarrow> tensor" where
  "take_rows k a =
     (case shape a of [] \<Rightarrow> a
      | b # rest \<Rightarrow> \<lparr>shape = min k b # rest, entries = take (k * prod_list rest) (entries a)\<rparr>)"

definition drop_rows :: "nat \<Rightarrow> tensor \<Rightarrow> tensor" where
  "drop_rows k a =
     (case shape a of [] \<Rightarrow> a
      | b # rest \<Rightarrow> \<lparr>shape = (b - k) # rest, entries = drop (k * prod_list rest) (entries a)\<rparr>)"

text \<open>The entries of example \<open>i\<close>: everything under index \<open>i\<close> of the first dimension.\<close>

definition row :: "nat \<Rightarrow> tensor \<Rightarrow> real list" where
  "row i a = (let w = prod_list (tl (shape a)) in take w (drop (i * w) (entries a)))"

text \<open>
  \<open>F.mse_loss(a, b)\<close> with its default reduction: the mean of the squared differences
  over all entries, which is not a number when there is no entry.
\<close>

definition mse_loss :: "tensor \<Rightarrow> tensor \<Rightarrow> num" where
  "mse_loss a b = mean (entries (broadcast (\<lambda>u v. (u - v)\<^sup>2) a b))"

definition sigmoid :: "real \<Rightarrow> real" where
  "sigmoid z = 1 / (1 + exp (- z))"

definition linspace :: "real \<Rightarrow> real \<Rightarrow> nat \<Rightarrow> real list" where
  "linspace a b n =
     (if n = 1 then [a] else map (\<lambda>i. a + real i * (b - a) / real (n - 1)) [0..<n])"

section \<open>Random generators\<close>

text \<open>
  The program draws from two global generators, the tensor library's and numpy's. Each is
  modelled by its state, passed explicitly and returned updated, and by the draws the
  program uses; a draw takes the number of values wanted. The generators themselves are
  outside the repository, so they are parameters, and what the library promises of a draw
  is a predicate on the parameter.
\<close>

record 'g torch_rng =
  torch_randn :: "nat \<Rightarrow> 'g \<Rightarrow> real list \<times> 'g"
  torch_rand :: "nat \<Rightarrow> 'g \<Rightarrow> real list \<times> 'g"
  torch_randperm :: "nat \<Rightarrow> 'g \<Rightarrow> nat list \<times> 'g"
  torch_categorical :: "real list \<Rightarrow> nat \<Rightarrow> 'g \<Rightarrow> nat list \<times> 'g"
  torch_beta :: "real \<Rightarrow> real \<Rightarrow> nat \<Rightarrow> 'g \<Rightarrow> real list \<times> 'g"

record 'h numpy_rng =
  np_choice :: "real \<Rightarrow> nat \<Rightarrow> 'h \<Rightarrow> bool list \<times> 'h"

text \<open>Standard-normal draws: as many as asked for.\<close>

definition randn_ok :: "'g torch_rng \<Rightarrow> bool" where
  "randn_ok T = (\<forall>n g. length (fst (torch_randn T n g)) = n)"

text \<open>Uniform draws: as many as asked for, each in the half-open interval from 0 to 1.\<close>

definition rand_ok :: "'g torch_rng \<Rightarrow> bool" where
  "rand_ok T = (\<forall>n g. length (fst (torch_rand T n g)) = n \<and>
                       (\<forall>u \<in> set (fst (torch_rand T n g)). 0 \<le> u \<and> u < 1))"

text \<open>A random permutation of the indices below \<open>n\<close>.\<close>

definition randperm_ok :: "'g torch_rng \<Rightarrow> bool" where
  "randperm_ok T = (\<forall>n g. length (fst (torch_randperm T n g)) = n \<and>
                           set (fst (torch_randperm T n g)) = {0..<n})"

text \<open>Categorical draws with replacement: as many as asked for, each the index of a category.\<close>

definition categorical_ok :: "'g torch_rng \<Rightarrow> bool" where
  "categorical_ok T = (\<forall>probs n g. length (fst (torch_categorical T probs n g)) = n \<and>
                           (\<forall>i \<in> set (fst (torch_categorical T probs n g)). probs = [] \<or> i < length probs))"

text \<open>Beta draws: as many as asked for, each strictly between 0 and 1.\<close>

definition beta_ok :: "'g torch_rng \<Rightarrow> bool" where
  "beta_ok T = (\<forall>a b n g. length (fst (torch_beta T a b n g)) = n \<and>
                           (\<forall>v \<in> set (fst (torch_beta T a b n g)). 0 < v \<and> v < 1))"

text \<open>\<open>np.random.choice([True, False], size=k, p=[p, 1 - p])\<close>: \<open>k\<close> flags.\<close>

definition choice_ok :: "'h numpy_rng \<Rightarrow> bool" where
  "choice_ok N = (\<forall>p k h. length (fst (np_choice N p k h)) = k)"

text \<open>
  \<open>probs.multinomial(n, replacement=True)\<close>: the library refuses to draw no sample
  (\<open>cannot sample n_sample <= 0 samples\<close>).
\<close>

definition multinomial :: "'g torch_rng \<Rightarrow> real list \<Rightarrow> nat \<Rightarrow> 'g \<Rightarrow> error + (nat list \<times> 'g)" where
  "multinomial T probs n g = (if n = 0 then Inl RuntimeError else Inr (torch_categorical T probs n g))"

text \<open>\<open>xs[idx]\<close> with a tensor of indices: an index past the end raises.\<close>

definition index_select :: "real list \<Rightarrow> nat list \<Rightarrow> error + real list" where
  "index_select xs idx =
     (if \<exists>i \<in> set idx. length xs \<le> i then Inl IndexError else Inr (map (\<lambda>i. xs ! i) idx))"

section \<open>Time samplers\<close>

text \<open>
  \<open>sample_t_fast\<close>: \<open>2 * num_samples\<close> uniform draws through the inverse distribution
  function, joined with their mirror images, shuffled, cut to \<open>num_samples\<close> and scaled.
  \<open>1 / a\<close> divides Python numbers, so \<open>a = 0\<close> raises.
\<close>

definition sample_t_fast ::
  "'g torch_rng \<Rightarrow> nat \<Rightarrow> real \<Rightarrow> real \<Rightarrow> real \<Rightarrow> 'g \<Rightarrow> error + (real list \<times> 'g)" where
  "sample_t_fast T num_samples a t_min t_max g =
     (let (u, g1) = torch_rand T (num_samples * 2) g
      in if a = 0 then Inl ZeroDivisionError
         else let t = map (\<lambda>v. (1 / a) * ln (1 + v * (exp a - 1))) u;
                  t = t @ map (\<lambda>v. 1 - v) t;
                  (perm, g2) = torch_randperm T (length t) g1
              in case index_select t perm of
                   Inl e \<Rightarrow> Inl e
                 | Inr shuffled \<Rightarrow>
                     Inr (map (\<lambda>v. v * (t_max - t_min) + t_min) (take num_samples shuffled), g2))"

text \<open>\<open>sample_beta_distribution\<close>: Beta draws, scaled.\<close>

definition sample_beta_distribution ::
  "'g torch_rng \<Rightarrow> nat \<Rightarrow> real \<Rightarrow> real \<Rightarrow> real \<Rightarrow> real \<Rightarrow> 'g \<Rightarrow> real list \<times> 'g" where
  "sample_beta_distribution T num_samples alpha beta t_min t_max g =
     (let (samples, g1) = torch_beta T alpha beta num_samples g
      in (map (\<lambda>v. v * (t_max - t_min) + t_min) samples, g1))"

text \<open>\<open>sample_cosmap\<close>: uniform draws through the cosine map, scaled.\<close>

definition sample_cosmap :: "'g torch_rng \<Rightarrow> nat \<Rightarrow> real \<Rightarrow> real \<Rightarrow> 'g \<Rightarrow> real list \<times> 'g" where
  "sample_cosmap T num_samples t_min t_max g =
     (let (u, g1) = torch_rand T num_samples g;
          pi_half = pi / 2;
          t = map (\<lambda>v. 1 - 1 / (tan (pi_half * v) + 1)) u
      in (map (\<lambda>v. v * (t_max - t_min) + t_min) t, g1))"

text \<open>The default bounds of the samplers, \<open>1e-5\<close> and \<open>1 - 1e-5\<close>.\<close>

definition t_min_default :: real where
  "t_min_default = 1 / 100000"

definition t_max_default :: real where
  "t_max_default = 1 - 1 / 100000"

section \<open>Step sizes\<close>

text \<open>
  \<open>deltas = 1 / torch.tensor([2 ** i for i in range(1, 8)])\<close> and the uniform
  probabilities \<open>torch.ones(7) / 7\<close> over them.
\<close>

definition deltas :: "real list" where
  "deltas = map (\<lambda>i. 1 / 2 ^ i) [1..<8]"

definition delta_probs :: "real list" where
  "delta_probs = map (\<lambda>_. 1 / real (length deltas)) deltas"

text \<open>\<open>flow_batch_size = int(batch_size * 3/4)\<close>.\<close>

definition flow_size :: "nat \<Rightarrow> nat" where
  "flow_size batch_size = batch_size * 3 div 4"

text \<open>\<open>d[:k] = 0\<close>.\<close>

definition zero_prefix :: "nat \<Rightarrow> real list \<Rightarrow> real list" where
  "zero_prefix k d = replicate (min k (length d)) 0 @ drop k d"

text \<open>
  The step sizes of a batch:
  \<open>d = deltas[delta_probs.multinomial(batch_size, replacement=True)]\<close>, then
  \<open>d[:flow_batch_size] = 0\<close>.
\<close>

definition sample_d :: "'g torch_rng \<Rightarrow> nat \<Rightarrow> 'g \<Rightarrow> error + (tensor \<times> 'g)" where
  "sample_d T batch_size g =
     (case multinomial T delta_probs batch_size g of
        Inl e \<Rightarrow> Inl e
      | Inr (idx, g1) \<Rightarrow>
          (case index_select deltas idx of
             Inl e \<Rightarrow> Inl e
           | Inr d \<Rightarrow> Inr (vector (zero_prefix (flow_size batch_size) d), g1)))"

section \<open>Conditioning and the velocity oracle\<close>

text \<open>
  The conditioning of a batch after the modality encoder has run, one item per example in
  each field; \<open>intent_feat\<close> and \<open>style_features\<close> may be \<open>None\<close>. The encoder and
  the items themselves are outside the repository: their type is a parameter.
\<close>

record 'f conditioning =
  seed_vectors :: "'f list"
  at_feat :: "'f list"
  intent_feat :: "'f list option"
  instance_ids :: "'f list"
  style_features :: "'f list option"

text \<open>
  The keyword arguments of one call of the denoiser. An argument that a call leaves out,
  or passes as \<open>None\<close>, is \<open>None\<close>.
\<close>

record 'f oracle_args =
  x_arg :: tensor
  timesteps_arg :: tensor
  seed_arg :: "'f list"
  at_feat_arg :: "'f list"
  intent_feat_arg :: "'f list option"
  cond_time_arg :: tensor
  instance_ids_arg :: "'f list option"
  style_features_arg :: "'f list option"
  force_cfg_arg :: "bool list option"

text \<open>
  The denoiser is a parameter: a function from the arguments of a call to the predicted
  velocity. Every call is logged with a flag that says whether it stands inside a
  \<open>torch.no_grad()\<close> block.
\<close>

type_synonym 'f velocity_oracle = "'f oracle_args \<Rightarrow> tensor"

type_synonym 'f call_log = "('f oracle_args \<times> bool) list"

text \<open>The oracle's contract: a velocity of the shape of \<open>x\<close>, with as many entries.\<close>

definition oracle_ok :: "'f velocity_oracle \<Rightarrow> bool" where
  "oracle_ok denoiser =
     (\<forall>args. shape (denoiser args) = shape (x_arg args) \<and>
             length (entries (denoiser args)) = length (entries (x_arg args)))"

section \<open>The training losses\<close>

text \<open>
  What one call of \<open>train_forward\<close> computes: the three entries of the dictionary it
  returns and, for stating properties, its draws (noise, times, step sizes, flags) and the
  log of its oracle calls.
\<close>

record 'f run =
  x0_noise_of :: tensor
  t_of :: tensor
  d_of :: tensor
  force_cfg_of :: "bool list"
  calls_of :: "'f call_log"
  flow_loss :: num
  consistency_loss :: num
  loss :: num

text \<open>
  \<open>GestureLSM.train_forward\<close>, from the encoded conditioning on. The statements follow
  the source in order; the torch generator serves \<open>randn_like\<close>, \<open>randn\<close> and
  \<open>multinomial\<close>, the numpy generator serves \<open>np.random.choice\<close>.
\<close>

definition train_forward ::
  "'g torch_rng \<Rightarrow> 'h numpy_rng \<Rightarrow> 'f velocity_oracle \<Rightarrow> 'f conditioning \<Rightarrow> tensor \<Rightarrow> 'g \<Rightarrow> 'h
     \<Rightarrow> error + ('f run \<times> 'g \<times> 'h)" where
  "train_forward T N denoiser cond latents g h =
     (let (noise, g1) = torch_randn T (numel latents) g;
          x0_noise = \<lparr>shape = shape latents, entries = noise\<rparr>
      in (case shape latents of
           [] \<Rightarrow> Inl IndexError
         | batch_size # _ \<Rightarrow>
      let flow_batch_size = flow_size batch_size;
          (z, g2) = torch_randn T batch_size g1;
          t = vector (map sigmoid z)
      in (case sample_d T batch_size g2 of
           Inl e \<Rightarrow> Inl e
         | Inr (d, g3) \<Rightarrow>
      (case reshape_coefs t of
           Inl e \<Rightarrow> Inl e
         | Inr t_coef \<Rightarrow>
      let x_t = tadd (tmul t_coef latents) (tmul (tmap (\<lambda>v. 1 - v) t_coef) x0_noise);
          t = flatten t_coef;
          flow_args = \<lparr>x_arg = take_rows flow_batch_size x_t,
                       timesteps_arg = take_rows flow_batch_size t,
                       seed_arg = take flow_batch_size (seed_vectors cond),
                       at_feat_arg = take flow_batch_size (at_feat cond),
                       intent_feat_arg = map_option (take flow_batch_size) (intent_feat cond),
                       cond_time_arg = take_rows flow_batch_size d,
                       instance_ids_arg = Some (take flow_batch_size (instance_ids cond)),
                       style_features_arg = map_option (take flow_batch_size) (style_features cond),
                       force_cfg_arg = None\<rparr>;
          flow_pred = denoiser flow_args;
          flow_target = tsub (take_rows flow_batch_size latents) (take_rows flow_batch_size x0_noise);
          flow_loss = mean_num (map (div_num (mse_loss flow_target flow_pred)) (entries t));
          (force_cfg, h1) = np_choice N (1 / 2) (batch_size - flow_batch_size) h;
          speed_t_args = \<lparr>x_arg = drop_rows flow_batch_size x_t,
                          timesteps_arg = drop_rows flow_batch_size t,
                          seed_arg = drop flow_batch_size (seed_vectors cond),
                          at_feat_arg = drop flow_batch_size (at_feat cond),
                          intent_feat_arg = map_option (drop flow_batch_size) (intent_feat cond),
                          cond_time_arg = drop_rows flow_batch_size d,
                          instance_ids_arg = Some (drop flow_batch_size (instance_ids cond)),
                          style_features_arg = map_option (drop flow_batch_size) (style_features cond),
                          force_cfg_arg = Some force_cfg\<rparr>;
          speed_t = denoiser speed_t_args
      in (case reshape_coefs d of
           Inl e \<Rightarrow> Inl e
         | Inr d_coef \<Rightarrow>
      let x_td = tadd (drop_rows flow_batch_size x_t) (tmul (drop_rows flow_batch_size d_coef) speed_t);
          d = flatten d_coef;
          speed_td_args = speed_t_args
                         \<lparr>x_arg := x_td,
                          timesteps_arg := tadd (drop_rows flow_batch_size t) (drop_rows flow_batch_size d),
                          cond_time_arg := drop_rows flow_batch_size d\<rparr>;
          speed_td = denoiser speed_td_args;
          speed_target = tmap (\<lambda>v. v / 2) (tadd speed_t speed_td);
          speed_pred_args = speed_t_args
                         \<lparr>cond_time_arg := tmap (\<lambda>v. 2 * v) (drop_rows flow_batch_size d)\<rparr>;
          speed_pred = denoiser speed_pred_args;
          consistency_loss = mse_loss speed_pred speed_target
      in Inr (\<lparr>x0_noise_of = x0_noise, t_of = t, d_of = d, force_cfg_of = force_cfg,
               calls_of = [(flow_args, False), (speed_t_args, True), (speed_td_args, True),
                           (speed_pred_args, False)],
               flow_loss = flow_loss, consistency_loss = consistency_loss,
               loss = add_num (add_num (Some 0) flow_loss) consistency_loss\<rparr>, g3, h1))))))"

text \<open>
  The run of \<open>train_forward\<close> as a function of its draws (the noise, the normal draws
  \<open>z\<close> behind the times, the step sizes \<open>ds\<close> and the flags): what the statements after
  the draws compute. It is a device for stating lemmas; \<open>train_forward_eq\<close> below proves
  that \<open>train_forward\<close> returns it.
\<close>

definition train_result ::
  "'f velocity_oracle \<Rightarrow> 'f conditioning \<Rightarrow> tensor \<Rightarrow> nat \<Rightarrow> real list \<Rightarrow> real list \<Rightarrow> real list
     \<Rightarrow> bool list \<Rightarrow> 'f run" where
  "train_result denoiser cond latents B noise z ds flags =
     (let f = flow_size B;
          x0_noise = \<lparr>shape = shape latents, entries = noise\<rparr>;
          t = vector (map sigmoid z);
          d = vector ds;
          t_coef = \<lparr>shape = [length z, 1, 1, 1], entries = map sigmoid z\<rparr>;
          d_coef = \<lparr>shape = [length ds, 1, 1, 1], entries = ds\<rparr>;
          x_t = tadd (tmul t_coef latents) (tmul (tmap (\<lambda>v. 1 - v) t_coef) x0_noise);
          flow_args = \<lparr>x_arg = take_rows f x_t,
                       timesteps_arg = take_rows f t,
                       seed_arg = take f (seed_vectors cond),
                       at_feat_arg = take f (at_feat cond),
                       intent_feat_arg = map_option (take f) (intent_feat cond),
                       cond_time_arg = take_rows f d,
                       instance_ids_arg = Some (take f (instance_ids cond)),
                       style_features_arg = map_option (take f) (style_features cond),
                       force_cfg_arg = None\<rparr>;
          speed_t_args = \<lparr>x_arg = drop_rows f x_t,
                          timesteps_arg = drop_rows f t,
                          seed_arg = drop f (seed_vectors cond),
                          at_feat_arg = drop f (at_feat cond),
                          intent_feat_arg = map_option (drop f) (intent_feat cond),
                          cond_time_arg = drop_rows f d,
                          instance_ids_arg = Some (drop f (instance_ids cond)),
                          style_features_arg = map_option (drop f) (style_features cond),
                          force_cfg_arg = Some flags\<rparr>;
          speed_t = denoiser speed_t_args;
          speed_td_args = speed_t_args
                         \<lparr>x_arg := tadd (drop_rows f x_t) (tmul (drop_rows f d_coef) speed_t),
                          timesteps_arg := tadd (drop_rows f t) (drop_rows f d)\<rparr>;
          speed_pred_args = speed_t_args\<lparr>cond_time_arg := tmap (\<lambda>v. 2 * v) (drop_rows f d)\<rparr>;
          fl = mean_num (map (div_num (mse_loss (tsub (take_rows f latents) (take_rows f x0_noise))
                                                (denoiser flow_args))) (map sigmoid z));
          cl = mse_loss (denoiser speed_pred_args)
                        (tmap (\<lambda>v. v / 2) (tadd speed_t (denoiser speed_td_args)))
      in \<lparr>x0_noise_of = x0_noise, t_of = t, d_of = d, force_cfg_of = flags,
          calls_of = [(flow_args, False), (speed_t_args, True), (speed_td_args, True),
                      (speed_pred_args, False)],
          flow_loss = fl, consistency_loss = cl,
          loss = add_num (add_num (Some 0) fl) cl\<rparr>)"

section \<open>Inference\<close>

text \<open>The fields of the module that \<open>forward\<close> reads, the guided oracle among them.\<close>

record 'f gesture_lsm =
  forward_with_cfg :: "'f oracle_args \<Rightarrow> real \<Rightarrow> tensor"
  guidance_scale :: real
  num_inference_steps :: nat
  input_dim :: nat
  seq_len :: nat

definition guided_ok :: "'f gesture_lsm \<Rightarrow> bool" where
  "guided_ok M =
     (\<forall>args s. shape (forward_with_cfg M args s) = shape (x_arg args) \<and>
               length (entries (forward_with_cfg M args s)) = length (entries (x_arg args)))"

text \<open>The dictionary that \<open>forward\<close> returns, and the log of its oracle calls.\<close>

record 'f generated =
  seed_out :: "'f list"
  at_feat_out :: "'f list"
  intent_feat_out :: "'f list option"
  init_noise :: tensor
  latents_out :: tensor
  grid_of :: "real list"
  guided_calls_of :: "'f call_log"

text \<open>
  The generation loop, \<open>for step in range(1, len(timesteps))\<close>: one guided oracle call
  inside \<open>torch.no_grad()\<close>, then the update of \<open>x_t\<close>.
\<close>

fun generation_loop ::
  "'f gesture_lsm \<Rightarrow> 'f conditioning \<Rightarrow> real \<Rightarrow> real list \<Rightarrow> nat list
     \<Rightarrow> tensor \<times> 'f call_log \<Rightarrow> tensor \<times> 'f call_log" where
  "generation_loop M cond delta_t timesteps [] state = state"
| "generation_loop M cond delta_t timesteps (step # steps) (x_t, calls) =
     (let current_t = vector [timesteps ! (step - 1)];
          current_delta = vector [delta_t];
          args = \<lparr>x_arg = x_t,
                  timesteps_arg = current_t,
                  seed_arg = seed_vectors cond,
                  at_feat_arg = at_feat cond,
                  intent_feat_arg = intent_feat cond,
                  cond_time_arg = current_delta,
                  instance_ids_arg = Some (instance_ids cond),
                  style_features_arg = style_features cond,
                  force_cfg_arg = None\<rparr>;
          speed = forward_with_cfg M args (guidance_scale M);
          x_t = tadd x_t (tmap (\<lambda>v. (timesteps ! step - timesteps ! (step - 1)) * v) speed)
      in generation_loop M cond delta_t timesteps steps (x_t, calls @ [(args, True)]))"

text \<open>
  \<open>GestureLSM.forward\<close>, from the encoded conditioning on. \<open>1 / self.num_inference_steps\<close>
  divides Python numbers and raises for zero steps.
\<close>

definition forward ::
  "'g torch_rng \<Rightarrow> 'f gesture_lsm \<Rightarrow> 'f conditioning \<Rightarrow> 'g \<Rightarrow> error + ('f generated \<times> 'g)" where
  "forward T M cond g =
     (let batch_size = length (at_feat cond);
          latent_shape = [batch_size, input_dim M, 1, seq_len M];
          (noise, g1) = torch_randn T (prod_list latent_shape) g;
          x_t = \<lparr>shape = latent_shape, entries = noise\<rparr>;
          epsilon = 1 / 10 ^ 8
      in if num_inference_steps M = 0 then Inl ZeroDivisionError
         else
      let delta_t = 1 / real (num_inference_steps M);
          timesteps = linspace epsilon (1 - epsilon) (num_inference_steps M + 1);
          (x_fin, calls) = generation_loop M cond delta_t timesteps [1..<length timesteps] (x_t, [])
      in Inr (\<lparr>seed_out = seed_vectors cond, at_feat_out = at_feat cond,
               intent_feat_out = intent_feat cond, init_noise = x_t, latents_out = x_fin,
               grid_of = timesteps, guided_calls_of = calls\<rparr>, g1))"

section \<open>The reflow variant and the names it reads\<close>

text \<open>
  A name that a function neither takes as a parameter nor assigns is read from the globals
  of its module (and then from the builtins, which bind neither of the two names at issue
  here). The globals of the module are the names its top-level statements bind: imported
  modules, functions and classes, and the logger.
\<close>

datatype 'f pyval = PyModule | PyFunction | PyClass | PyObject | PyNone | PyFeatures "'f list"

definition module_globals :: "(string \<times> 'f pyval) list" where
  "module_globals =
     [(''time'', PyModule), (''inspect'', PyModule), (''logging'', PyModule),
      (''Optional'', PyObject), (''stats'', PyModule), (''tqdm'', PyModule),
      (''np'', PyModule), (''DictConfig'', PyClass), (''Dict'', PyObject),
      (''math'', PyModule), (''torch'', PyModule), (''dist'', PyModule), (''F'', PyModule),
      (''instantiate_from_config'', PyFunction), (''count_parameters'', PyFunction),
      (''extract_into_tensor'', PyFunction), (''sum_flat'', PyFunction),
      (''logger'', PyObject), (''exponential_pdf'', PyFunction),
      (''ExponentialPDF'', PyClass), (''sample_t'', PyFunction),
      (''sample_beta_distribution'', PyFunction), (''sample_t_fast'', PyFunction),
      (''sample_cosmap'', PyFunction), (''reshape_coefs'', PyFunction),
      (''GestureLSM'', PyClass)]"

definition load_global :: "string \<Rightarrow> error + 'f pyval" where
  "load_global name = (case map_of module_globals name of None \<Rightarrow> Inl (NameError name) | Some v \<Rightarrow> Inr v)"

text \<open>\<open>name[...]\<close> for a global name and a slice: only a tensor of features can be sliced.\<close>

definition load_slice :: "string \<Rightarrow> ('f list \<Rightarrow> 'f list) \<Rightarrow> error + 'f list" where
  "load_slice name slice =
     (case load_global name of
        Inl e \<Rightarrow> Inl e
      | Inr (PyFeatures xs) \<Rightarrow> Inr (slice xs)
      | Inr _ \<Rightarrow> Inl TypeError)"

text \<open>\<open>name[...] if name is not None else None\<close>: the test reads the name first.\<close>

definition load_slice_unless_none :: "string \<Rightarrow> ('f list \<Rightarrow> 'f list) \<Rightarrow> error + 'f list option" where
  "load_slice_unless_none name slice =
     (case load_global name of
        Inl e \<Rightarrow> Inl e
      | Inr (PyNone :: 'f pyval) \<Rightarrow> Inr None
      | Inr _ \<Rightarrow> (case load_slice name slice of Inl e \<Rightarrow> Inl e | Inr xs \<Rightarrow> Inr (Some xs)))"

text \<open>
  \<open>GestureLSM.train_reflow\<close>. Its parameters are \<open>latents\<close>, \<open>audio_features\<close>,
  \<open>x0_noise\<close> and \<open>seed_vectors\<close> (\<open>seed_vecs\<close> here, the longer name being a
  field of the conditioning); the first two oracle calls read \<open>at_feat\<close> and
  \<open>intent_feat\<close>, which the function never binds. The arguments of a call are evaluated
  from left to right, before the call.
\<close>

definition train_reflow ::
  "'g torch_rng \<Rightarrow> 'h numpy_rng \<Rightarrow> 'f velocity_oracle \<Rightarrow> tensor \<Rightarrow> 'f list \<Rightarrow> tensor \<Rightarrow> 'f list
     \<Rightarrow> 'g \<Rightarrow> 'h \<Rightarrow> error + ('f run \<times> 'g \<times> 'h)" where
  "train_reflow T N denoiser latents audio_features x0_noise seed_vecs g h =
     (case shape latents of
           [] \<Rightarrow> Inl IndexError
         | batch_size # _ \<Rightarrow>
      let flow_batch_size = flow_size batch_size;
          (ts, g1) = sample_beta_distribution T batch_size 2 (12 / 10) t_min_default t_max_default g;
          t = vector ts
      in (case sample_d T batch_size g1 of
           Inl e \<Rightarrow> Inl e
         | Inr (d, g2) \<Rightarrow>
      (case reshape_coefs t of
           Inl e \<Rightarrow> Inl e
         | Inr t_coef \<Rightarrow>
      let x_t = tadd (tmul t_coef latents) (tmul (tmap (\<lambda>v. 1 - v) t_coef) x0_noise);
          t = flatten t_coef
      in (case load_slice ''at_feat'' (take flow_batch_size) of
           Inl e \<Rightarrow> Inl e
         | Inr flow_at_feat \<Rightarrow>
      (case load_slice_unless_none ''intent_feat'' (take flow_batch_size) of
           Inl e \<Rightarrow> Inl e
         | Inr flow_intent_feat \<Rightarrow>
      let flow_args = \<lparr>x_arg = take_rows flow_batch_size x_t,
                       timesteps_arg = take_rows flow_batch_size t,
                       seed_arg = take flow_batch_size seed_vecs,
                       at_feat_arg = flow_at_feat,
                       intent_feat_arg = flow_intent_feat,
                       cond_time_arg = take_rows flow_batch_size d,
                       instance_ids_arg = None,
                       style_features_arg = None,
                       force_cfg_arg = None\<rparr>;
          flow_pred = denoiser flow_args;
          flow_target = tsub (take_rows flow_batch_size latents) (take_rows flow_batch_size x0_noise);
          flow_loss = mean_num (map (div_num (mse_loss flow_target flow_pred)) (entries t));
          (force_cfg, h1) = np_choice N (8 / 10) (batch_size - flow_batch_size) h
      in (case load_slice ''at_feat'' (drop flow_batch_size) of
           Inl e \<Rightarrow> Inl e
         | Inr rest_at_feat \<Rightarrow>
      (case load_slice_unless_none ''intent_feat'' (drop flow_batch_size) of
           Inl e \<Rightarrow> Inl e
         | Inr rest_intent_feat \<Rightarrow>
      let speed_t_args = \<lparr>x_arg = drop_rows flow_batch_size x_t,
                          timesteps_arg = drop_rows flow_batch_size t,
                          seed_arg = drop flow_batch_size seed_vecs,
                          at_feat_arg = rest_at_feat,
                          intent_feat_arg = rest_intent_feat,
                          cond_time_arg = drop_rows flow_batch_size d,
                          instance_ids_arg = None,
                          style_features_arg = None,
                          force_cfg_arg = Some force_cfg\<rparr>;
          speed_t = denoiser speed_t_args
      in (case reshape_coefs d of
           Inl e \<Rightarrow> Inl e
         | Inr d_coef \<Rightarrow>
      let x_td = tadd (drop_rows flow_batch_size x_t) (tmul (drop_rows flow_batch_size d_coef) speed_t);
          d = flatten d_coef;
          speed_td_args = \<lparr>x_arg = x_td,
                           timesteps_arg = tadd (drop_rows flow_batch_size t) (drop_rows flow_batch_size d),
                           seed_arg = drop flow_batch_size seed_vecs,
                           at_feat_arg = drop flow_batch_size audio_features,
                           intent_feat_arg = None,
                           cond_time_arg = drop_rows flow_batch_size d,
                           instance_ids_arg = None,
                           style_features_arg = None,
                           force_cfg_arg = Some force_cfg\<rparr>;
          speed_td = denoiser speed_td_args;
          speed_target = tmap (\<lambda>v. v / 2) (tadd speed_t speed_td);
          speed_pred_args = \<lparr>x_arg = drop_rows flow_batch_size x_t,
                             timesteps_arg = drop_rows flow_batch_size t,
                             seed_arg = drop flow_batch_size seed_vecs,
                             at_feat_arg = drop flow_batch_size audio_features,
                             intent_feat_arg = None,
                             cond_time_arg = tmap (\<lambda>v. 2 * v) (drop_rows flow_batch_size d),
                             instance_ids_arg = None,
                             style_features_arg = None,
                             force_cfg_arg = Some force_cfg\<rparr>;
          speed_pred = denoiser speed_pred_args;
          consistency_loss = mse_loss speed_pred speed_target
      in Inr (\<lparr>x0_noise_of = x0_noise, t_of = t, d_of = d, force_cfg_of = force_cfg,
               calls_of = [(flow_args, False), (speed_t_args, True), (speed_td_args, True),
                           (speed_pred_args, False)],
               flow_loss = flow_loss, consistency_loss = consistency_loss,
               loss = add_num (add_num (Some 0) flow_loss) consistency_loss\<rparr>, g2, h1)))))))))"

section \<open>The flow loss in the words of the specification\<close>

text \<open>
  The specification words the flow loss as the squared velocity error divided, example by
  example, by the time value of that example before averaging: the mean over the examples
  \<open>i\<close> of the flow subset of (mean squared error of example \<open>i\<close>) / \<open>t\<^sub>i\<close>, where
  \<open>ts\<close> holds the time values of the flow subset only. This definition follows those
  words, for comparison with what \<open>train_forward\<close> computes.
\<close>

definition flow_loss_spec :: "tensor \<Rightarrow> tensor \<Rightarrow> real list \<Rightarrow> num" where
  "flow_loss_spec pred target ts =
     (let sq = broadcast (\<lambda>u v. (u - v)\<^sup>2) pred target
      in mean_num (map (\<lambda>i. div_num (mean (row i sq)) (ts ! i)) [0..<length ts]))"

section \<open>Concrete generators and oracles\<close>

text \<open>
  A generator that reads its draws from a tape of reals and a tape of indices, padded with
  zeros; uniform and Beta draws are brought into their ranges, categorical draws are
  reduced to the number of categories, and the permutation is the identity. It instantiates
  the parameters above at concrete inputs.
\<close>

definition from_tape :: "nat \<Rightarrow> 'a \<Rightarrow> 'a list \<Rightarrow> 'a list" where
  "from_tape n pad tape = take n (tape @ replicate n pad)"

definition tape_rng :: "(real list \<times> nat list) torch_rng" where
  "tape_rng =
     \<lparr>torch_randn = (\<lambda>n (rs, ks). (from_tape n 0 rs, (drop n rs, ks))),
      torch_rand = (\<lambda>n (rs, ks). (map (\<lambda>v. if 0 \<le> v \<and> v < 1 then v else 0) (from_tape n 0 rs), (drop n rs, ks))),
      torch_randperm = (\<lambda>n g. ([0..<n], g)),
      torch_categorical = (\<lambda>probs n (rs, ks). (map (\<lambda>k. k mod length probs) (from_tape n 0 ks), (rs, drop n ks))),
      torch_beta = (\<lambda>a b n (rs, ks). (map (\<lambda>v. if 0 < v \<and> v < 1 then v else 1 / 2) (from_tape n 0 rs), (drop n rs, ks)))\<rparr>"

definition tape_np :: "(bool list) numpy_rng" where
  "tape_np = \<lparr>np_choice = (\<lambda>p k h. (from_tape k False h, drop k h))\<rparr>"

text \<open>An oracle that predicts the zero velocity, and one that returns its input.\<close>

definition zero_oracle :: "'f velocity_oracle" where
  "zero_oracle args = tmap (\<lambda>v. 0) (x_arg args)"

definition echo_oracle :: "'f velocity_oracle" where
  "echo_oracle args = x_arg args"

text \<open>A batch of latents with one entry per example, and a conditioning of \<open>B\<close> items.\<close>

definition column :: "real list \<Rightarrow> tensor" where
  "column xs = \<lparr>shape = [length xs, 1, 1, 1], entries = xs\<rparr>"

definition example_cond :: "nat \<Rightarrow> nat conditioning" where
  "example_cond B = \<lparr>seed_vectors = [0..<B], at_feat = [0..<B], intent_feat = Some [0..<B],
                     instance_ids = [0..<B], style_features = None\<rparr>"

text \<open>A training run on a batch of two examples, for comparing formulas on concrete values.\<close>

definition example_training_run :: "nat run" where
  "example_training_run =
     fst (projr (train_forward tape_rng tape_np echo_oracle (example_cond 2) (column [1, 2])
                   ([0, 0, 0, ln 3], [0, 0]) [True]))"

text \<open>
  A module of \<open>N\<close> inference steps on latents of one entry per example, whose guided
  oracle scales its input by the guidance scale.
\<close>

definition example_model :: "nat \<Rightarrow> nat gesture_lsm" where
  "example_model N =
     \<lparr>forward_with_cfg = (\<lambda>args s. tmap (\<lambda>v. s * v) (x_arg args)), guidance_scale = 2,
      num_inference_steps = N, input_dim = 1, seq_len = 1\<rparr>"

section \<open>Properties\<close>

subsection \<open>Broadcasting tensors of one shape\<close>

lemma concat_chunks:
  "length xs = m * p \<Longrightarrow> concat (map (\<lambda>i. take p (drop (i * p) xs)) [0..<m]) = xs"
proof (induction m arbitrary: xs)
  case 0
  then show ?case by simp
next
  case (Suc m)
  let ?ys = "take (m * p) xs"
  have ly: "length ?ys = m * p" using Suc.prems by simp
  have same: "map (\<lambda>i. take p (drop (i * p) xs)) [0..<m] = map (\<lambda>i. take p (drop (i * p) ?ys)) [0..<m]"
  proof (rule map_cong [OF refl])
    fix i assume "i \<in> set [0..<m]"
    then have "Suc i \<le> m" by simp
    then have "Suc i * p \<le> m * p" by (rule mult_le_mono1)
    then have "i * p + p \<le> m * p" by simp
    then show "take p (drop (i * p) xs) = take p (drop (i * p) ?ys)"
      by (simp add: drop_take min_def)
  qed
  have last: "take p (drop (m * p) xs) = drop (m * p) xs"
    using Suc.prems by simp
  have "concat (map (\<lambda>i. take p (drop (i * p) xs)) [0..<Suc m])
        = concat (map (\<lambda>i. take p (drop (i * p) ?ys)) [0..<m]) @ drop (m * p) xs"
    by (simp add: same last)
  also have "\<dots> = ?ys @ drop (m * p) xs" using Suc.IH [OF ly] by simp
  finally show ?case by simp
qed

lemma expand_id: "length xs = prod_list s \<Longrightarrow> expand s s xs = xs"
proof (induction s arbitrary: xs)
  case Nil
  then show ?case by simp
next
  case (Cons m ms)
  let ?p = "prod_list ms"
  have len: "length xs = m * ?p" using Cons.prems by simp
  have e: "map (\<lambda>i. expand ms ms (take ?p (drop (i * ?p) xs))) [0..<m]
        = map (\<lambda>i. take ?p (drop (i * ?p) xs)) [0..<m]"
  proof (rule map_cong [OF refl])
    fix i assume "i \<in> set [0..<m]"
    then have "Suc i \<le> m" by simp
    then have "Suc i * ?p \<le> m * ?p" by (rule mult_le_mono1)
    then have "i * ?p + ?p \<le> length xs" using len by simp
    then have "length (take ?p (drop (i * ?p) xs)) = ?p" by simp
    then show "expand ms ms (take ?p (drop (i * ?p) xs)) = take ?p (drop (i * ?p) xs)"
      by (rule Cons.IH)
  qed
  have "expand (m # ms) (m # ms) xs
        = concat (map (\<lambda>i. expand ms ms (take ?p (drop (i * ?p) xs))) [0..<m])"
    by simp
  also have "\<dots> = concat (map (\<lambda>i. take ?p (drop (i * ?p) xs)) [0..<m])"
    by (simp only: e)
  also have "\<dots> = xs" by (rule concat_chunks [OF len])
  finally show ?case .
qed

lemma pad_shape_same: "pad_shape (max (length s) (length s)) s = s"
  by (simp add: pad_shape_def)

lemma broadcast_shape_same: "broadcast_shape s s = s"
  by (simp add: broadcast_shape_def pad_shape_def Let_def map2_map_map [symmetric] zip_same_conv_map
      map_idI)

lemma broadcast_same:
  assumes "shape b = shape a" and "wf_tensor a" and "wf_tensor b"
  shows "broadcast f a b = \<lparr>shape = shape a, entries = map2 f (entries a) (entries b)\<rparr>"
  using assms
  by (simp add: broadcast_def Let_def broadcast_shape_same pad_shape_def expand_id wf_tensor_def)

lemma wf_column: "wf_tensor (column xs)"
  by (simp add: wf_tensor_def column_def)

lemma wf_vector: "wf_tensor (vector xs)"
  by (simp add: wf_tensor_def vector_def)

lemma column_literal: "n = length xs \<Longrightarrow> \<lparr>shape = [n, Suc 0, Suc 0, Suc 0], entries = xs\<rparr> = column xs"
  by (simp add: column_def)

lemma vector_literal: "n = length xs \<Longrightarrow> \<lparr>shape = [n], entries = xs\<rparr> = vector xs"
  by (simp add: vector_def)

lemma broadcast_column:
  "length ys = length xs \<Longrightarrow> broadcast f (column xs) (column ys) = column (map2 f xs ys)"
proof -
  assume l: "length ys = length xs"
  then have sh: "shape (column ys) = shape (column xs)" by (simp add: column_def)
  show ?thesis
    unfolding broadcast_same [OF sh wf_column wf_column] using l by (simp add: column_def)
qed

lemma broadcast_vector:
  "length ys = length xs \<Longrightarrow> broadcast f (vector xs) (vector ys) = vector (map2 f xs ys)"
proof -
  assume l: "length ys = length xs"
  then have sh: "shape (vector ys) = shape (vector xs)" by (simp add: vector_def)
  show ?thesis
    unfolding broadcast_same [OF sh wf_vector wf_vector] using l by (simp add: vector_def)
qed

lemma tmap_column: "tmap f (column xs) = column (map f xs)"
  by (simp add: tmap_def column_def)

lemma tmap_vector: "tmap f (vector xs) = vector (map f xs)"
  by (simp add: tmap_def vector_def)

lemma take_rows_column: "take_rows k (column xs) = column (take k xs)"
  by (simp add: take_rows_def column_def min.commute)

lemma drop_rows_column: "drop_rows k (column xs) = column (drop k xs)"
  by (simp add: drop_rows_def column_def)

lemma take_rows_vector: "take_rows k (vector xs) = vector (take k xs)"
  by (simp add: take_rows_def vector_def min.commute)

lemma drop_rows_vector: "drop_rows k (vector xs) = vector (drop k xs)"
  by (simp add: drop_rows_def vector_def)

lemma mse_loss_column:
  "length ys = length xs \<Longrightarrow> mse_loss (column xs) (column ys) = mean (map2 (\<lambda>u v. (u - v)\<^sup>2) xs ys)"
  by (simp add: mse_loss_def broadcast_column) (simp add: column_def)

lemmas column_ops = broadcast_column broadcast_vector tmap_column tmap_vector take_rows_column
  drop_rows_column take_rows_vector drop_rows_vector mse_loss_column tadd_def tmul_def tsub_def

lemma sigmoid_0: "sigmoid 0 = 1 / 2"
  by (simp add: sigmoid_def)

lemma sigmoid_ln3: "sigmoid (ln 3) = 3 / 4"
  by (simp add: sigmoid_def exp_minus)

lemma upt_0_2: "[0..<2] = [0, 1]"
  by (simp add: upt_rec numeral_2_eq_2)

lemma example_cond_2:
  "example_cond 2 = \<lparr>seed_vectors = [0, 1], at_feat = [0, 1], intent_feat = Some [0, 1],
                      instance_ids = [0, 1], style_features = None\<rparr>"
  by (simp add: example_cond_def upt_0_2)

lemma example_draws:
  "torch_randn tape_rng (numel (column [1, 2])) ([0, 0, 0, ln 3], [0, 0]) = ([0, 0], ([0, ln 3], [0, 0]))"
  "torch_randn tape_rng 2 ([0, ln 3], [0, 0]) = ([0, ln 3], ([], [0, 0]))"
  "sample_d tape_rng 2 ([], [0, 0]) = Inr (vector [0, 1 / 2], ([], []))"
  "np_choice tape_np (1 / 2) (2 - flow_size 2) [True] = ([True], [])"
  by (simp_all add: tape_rng_def tape_np_def from_tape_def sample_d_def multinomial_def
      index_select_def deltas_def delta_probs_def zero_prefix_def flow_size_def upt_rec
      numeral_2_eq_2 column_def numel_def)

lemma example_x_t:
  "tadd (tmul (column [1 / 2, 3 / 4]) (column [1, 2]))
        (tmul (tmap (\<lambda>v. 1 - v) (column [1 / 2, 3 / 4])) (column [0, 0])) = column [1 / 2, 3 / 2]"
  by (simp add: column_ops)

lemma shape_column: "shape (column xs) = [length xs, Suc 0, Suc 0, Suc 0]"
  by (simp add: column_def)

subsection \<open>Step sizes and the shape of a training run\<close>

lemma flow_size_floor: "flow_size B = nat \<lfloor>0.75 * real B\<rfloor>"
proof -
  have "0.75 * real B = real (B * 3) / real 4" by simp
  then have "\<lfloor>0.75 * real B\<rfloor> = int (B * 3 div 4)"
    by (simp only: floor_divide_of_nat_eq)
  then show ?thesis by (simp add: flow_size_def)
qed

lemma flow_size_le: "flow_size B \<le> B"
  by (simp add: flow_size_def)

lemma length_deltas: "length deltas = 7"
  by (simp add: deltas_def)

lemma set_deltas: "set deltas = (\<lambda>k. 1 / 2 ^ k) ` {1..7::nat}"
proof -
  have "{1..<8::nat} = {1..7}" by auto
  then show ?thesis by (simp add: deltas_def)
qed

lemma length_delta_probs: "length delta_probs = 7"
  by (simp add: delta_probs_def length_deltas)

lemma reshape_coefs_vector:
  "reshape_coefs (vector xs) = Inr \<lparr>shape = [length xs, 1, 1, 1], entries = xs\<rparr>"
  by (simp add: reshape_coefs_def reshape_def vector_def numel_def)

lemma flatten_coefs: "flatten \<lparr>shape = [length xs, 1, 1, 1], entries = xs\<rparr> = vector xs"
  by (simp add: flatten_def numel_def vector_def)

lemma sample_d_cases:
  assumes "categorical_ok T"
  shows "(B = 0 \<longrightarrow> sample_d T B g = Inl RuntimeError) \<and>
         (0 < B \<longrightarrow> (\<exists>idx. length idx = B \<and> (\<forall>i \<in> set idx. i < 7) \<and>
             sample_d T B g =
               Inr (vector (zero_prefix (flow_size B) (map (\<lambda>i. deltas ! i) idx)),
                    snd (torch_categorical T delta_probs B g))))"
proof (intro conjI impI)
  assume "B = 0"
  then show "sample_d T B g = Inl RuntimeError"
    by (simp add: sample_d_def multinomial_def)
next
  assume pos: "0 < B"
  obtain idx g1 where draw: "torch_categorical T delta_probs B g = (idx, g1)"
    by (cases "torch_categorical T delta_probs B g")
  from assms have len: "length (fst (torch_categorical T delta_probs B g)) = B"
    and rng: "\<forall>i \<in> set (fst (torch_categorical T delta_probs B g)). delta_probs = [] \<or> i < length delta_probs"
    unfolding categorical_ok_def by blast+
  have ne: "delta_probs \<noteq> []" using length_delta_probs by auto
  from len draw have l: "length idx = B" by simp
  from rng draw ne have r: "\<forall>i \<in> set idx. i < 7" by (simp add: length_delta_probs)
  then have sel: "index_select deltas idx = Inr (map (\<lambda>i. deltas ! i) idx)"
    by (auto simp: index_select_def length_deltas)
  have "sample_d T B g = Inr (vector (zero_prefix (flow_size B) (map (\<lambda>i. deltas ! i) idx)), g1)"
    using pos by (simp add: sample_d_def multinomial_def draw sel)
  with l r draw show "\<exists>idx. length idx = B \<and> (\<forall>i \<in> set idx. i < 7) \<and>
             sample_d T B g =
               Inr (vector (zero_prefix (flow_size B) (map (\<lambda>i. deltas ! i) idx)),
                    snd (torch_categorical T delta_probs B g))"
    by auto
qed

lemma zero_prefix_props:
  assumes "length xs = B" "k \<le> B"
  shows "length (zero_prefix k xs) = B"
    and "take k (zero_prefix k xs) = replicate k 0"
    and "drop k (zero_prefix k xs) = drop k xs"
  using assms by (simp_all add: zero_prefix_def min_def)

lemma train_forward_eq:
  assumes "shape latents = B # rest"
      and "torch_randn T (numel latents) g = (noise, g1)"
      and "torch_randn T B g1 = (z, g2)"
      and "sample_d T B g2 = Inr (vector ds, g3)"
      and "np_choice N (1 / 2) (B - flow_size B) h = (flags, h1)"
  shows "train_forward T N denoiser cond latents g h =
           Inr (train_result denoiser cond latents B noise z ds flags, g3, h1)"
  using assms
  by (simp add: train_forward_def train_result_def Let_def reshape_coefs_def reshape_def
      flatten_def numel_def vector_def)

lemma train_forward_empty_batch:
  assumes "shape latents = 0 # rest"
  shows "train_forward T N denoiser cond latents g h = Inl RuntimeError"
  using assms
  by (simp add: train_forward_def Let_def sample_d_def multinomial_def split: prod.splits)

lemma train_forward_scalar_latents:
  assumes "shape latents = []"
  shows "train_forward T N denoiser cond latents g h = Inl IndexError"
  using assms
  by (simp add: train_forward_def Let_def split: prod.splits)

lemma train_forward_returns:
  assumes "categorical_ok T" and "shape latents = B # rest" and "0 < B"
  shows "\<exists>r g' h'. train_forward T N denoiser cond latents g h = Inr (r, g', h')"
proof -
  obtain noise g1 where n: "torch_randn T (numel latents) g = (noise, g1)"
    by (cases "torch_randn T (numel latents) g")
  obtain z g2 where z: "torch_randn T B g1 = (z, g2)"
    by (cases "torch_randn T B g1")
  obtain flags h1 where c: "np_choice N (1 / 2) (B - flow_size B) h = (flags, h1)"
    by (cases "np_choice N (1 / 2) (B - flow_size B) h")
  from sample_d_cases [OF assms(1), of B g2] assms(3)
  obtain ds g3 where d: "sample_d T B g2 = Inr (vector ds, g3)" by auto
  show ?thesis
    unfolding train_forward_eq [OF assms(2) n z d c] by blast
qed

lemma sample_d_InrD:
  assumes "sample_d T B g = Inr (d, g')"
  shows "\<exists>ds. d = vector ds"
  using assms
  by (auto simp: sample_d_def split: sum.splits prod.splits)

lemma train_forward_sample_d_fails:
  assumes "shape latents = B # rest"
      and "torch_randn T (numel latents) g = (noise, g1)"
      and "torch_randn T B g1 = (z, g2)"
      and "sample_d T B g2 = Inl e"
  shows "train_forward T N denoiser cond latents g h = Inl e"
  using assms by (simp add: train_forward_def Let_def)

lemma train_forward_InrE:
  assumes "train_forward T N denoiser cond latents g h = Inr (r, g', h')"
  obtains B rest noise g1 z g2 ds flags where
    "shape latents = B # rest" and "0 < B"
    and "torch_randn T (numel latents) g = (noise, g1)"
    and "torch_randn T B g1 = (z, g2)"
    and "sample_d T B g2 = Inr (vector ds, g')"
    and "np_choice N (1 / 2) (B - flow_size B) h = (flags, h')"
proof -
  obtain B rest where sh: "shape latents = B # rest"
    using assms train_forward_scalar_latents [of latents T N denoiser cond g h]
    by (cases "shape latents") auto
  have pos: "0 < B"
    using assms sh train_forward_empty_batch [of latents rest T N denoiser cond g h]
    by (cases B) auto
  obtain noise g1 where n: "torch_randn T (numel latents) g = (noise, g1)"
    by (cases "torch_randn T (numel latents) g")
  obtain z g2 where z: "torch_randn T B g1 = (z, g2)"
    by (cases "torch_randn T B g1")
  obtain flags h1 where c: "np_choice N (1 / 2) (B - flow_size B) h = (flags, h1)"
    by (cases "np_choice N (1 / 2) (B - flow_size B) h")
  obtain ds g3 where d: "sample_d T B g2 = Inr (vector ds, g3)"
  proof (cases "sample_d T B g2")
    case (Inl e)
    from train_forward_sample_d_fails [OF sh n z Inl, of N denoiser cond h] assms show ?thesis by simp
  next
    case (Inr p)
    obtain d g3 where "p = (d, g3)" by (cases p)
    with Inr sample_d_InrD [of T B g2 d g3] that show ?thesis by auto
  qed
  from train_forward_eq [OF sh n z d c, of denoiser cond] assms
  have "g' = g3" "h' = h1" by simp_all
  with that sh pos n z d c show ?thesis by blast
qed

lemma train_forward_run:
  assumes "train_forward T N denoiser cond latents g h = Inr (r, g', h')"
      and "shape latents = B # rest"
  obtains noise g1 z g2 ds flags where
    "0 < B"
    and "torch_randn T (numel latents) g = (noise, g1)"
    and "torch_randn T B g1 = (z, g2)"
    and "sample_d T B g2 = Inr (vector ds, g')"
    and "np_choice N (1 / 2) (B - flow_size B) h = (flags, h')"
    and "r = train_result denoiser cond latents B noise z ds flags"
proof -
  from assms(1) obtain B' rest' noise g1 z g2 ds flags where
    sh: "shape latents = B' # rest'" and pos: "0 < B'"
    and n: "torch_randn T (numel latents) g = (noise, g1)"
    and z: "torch_randn T B' g1 = (z, g2)"
    and d: "sample_d T B' g2 = Inr (vector ds, g')"
    and c: "np_choice N (1 / 2) (B' - flow_size B') h = (flags, h')"
    by (rule train_forward_InrE)
  from sh assms(2) have B: "B' = B" by simp
  from train_forward_eq [OF sh n z d c, of denoiser cond] assms(1)
  have "r = train_result denoiser cond latents B' noise z ds flags" by simp
  with that pos n z d c B show ?thesis by blast
qed

subsection \<open>The coefficient broadcaster\<close>

text \<open>
  C7, as the code has it. \<open>reshape_coefs\<close> maps every one-dimensional input of length
  \<open>B\<close> to the shape \<open>(B, 1, 1, 1)\<close> with the same values in the same order, and
  flattening the result gives the input back. It raises IndexError for an input without
  dimensions, and RuntimeError exactly for the inputs of a non-zero first dimension whose
  remaining dimensions hold more than one element; an input of two or more dimensions
  whose remaining dimensions all have size one is reshaped like a one-dimensional one.
\<close>

theorem reshape_coefs_cases:
  "(\<forall>B. shape t = [B] \<longrightarrow>
        reshape_coefs t = Inr \<lparr>shape = [B, 1, 1, 1], entries = entries t\<rparr> \<and>
        flatten \<lparr>shape = [B, 1, 1, 1], entries = entries t\<rparr> = t) \<and>
   (shape t = [] \<longrightarrow> reshape_coefs t = Inl IndexError) \<and>
   (\<forall>b rest. shape t = b # rest \<longrightarrow>
        reshape_coefs t =
          (if b = 0 \<or> prod_list rest = 1 then Inr \<lparr>shape = [b, 1, 1, 1], entries = entries t\<rparr>
           else Inl RuntimeError))"
  by (auto simp: reshape_coefs_def reshape_def numel_def flatten_def)

theorem reshape_coefs_cases_witness:
  "shape (vector [5, 7]) = [2] \<and>
   reshape_coefs (vector [5, 7]) = Inr \<lparr>shape = [2, 1, 1, 1], entries = [5, 7]\<rparr> \<and>
   flatten \<lparr>shape = [2, 1, 1, 1], entries = [5, 7]\<rparr> = vector [5, 7] \<and>
   reshape_coefs \<lparr>shape = [2, 3], entries = [1, 2, 3, 4, 5, 6]\<rparr> = Inl RuntimeError \<and>
   reshape_coefs \<lparr>shape = [], entries = [1]\<rparr> = Inl IndexError"
  using reshape_coefs_cases [of "vector [5, 7]"]
        reshape_coefs_cases [of "\<lparr>shape = [2, 3], entries = [1, 2, 3, 4, 5, 6]\<rparr>"]
        reshape_coefs_cases [of "\<lparr>shape = [], entries = [1]\<rparr>"]
  by (simp add: vector_def flatten_def numel_def)

text \<open>
  C7 as stated fails: an input of shape \<open>(2, 1)\<close> is not one-dimensional, and
  \<open>reshape_coefs\<close> does not raise on it.
\<close>

theorem reshape_coefs_accepts_column:
  "reshape_coefs \<lparr>shape = [2, 1], entries = [5, 7]\<rparr> = Inr \<lparr>shape = [2, 1, 1, 1], entries = [5, 7]\<rparr>"
  by (simp add: reshape_coefs_def reshape_def numel_def)

subsection \<open>The step-size vector\<close>

lemma train_forward_d_of:
  assumes "train_forward T N denoiser cond latents g h = Inr (r, g', h')"
      and "shape latents = B # rest" and "categorical_ok T"
  shows "\<exists>idx. length idx = B \<and> (\<forall>i \<in> set idx. i < 7) \<and>
           d_of r = vector (zero_prefix (flow_size B) (map (\<lambda>i. deltas ! i) idx))"
proof -
  from assms(1) obtain B' rest' noise g1 z g2 ds flags where
    sh: "shape latents = B' # rest'" and pos: "0 < B'"
    and n: "torch_randn T (numel latents) g = (noise, g1)"
    and z: "torch_randn T B' g1 = (z, g2)"
    and d: "sample_d T B' g2 = Inr (vector ds, g')"
    and c: "np_choice N (1 / 2) (B' - flow_size B') h = (flags, h')"
    by (rule train_forward_InrE)
  from sh assms(2) have B: "B' = B" by simp
  from train_forward_eq [OF sh n z d c, of denoiser cond] assms(1)
  have dr: "d_of r = vector ds" by (auto simp: train_result_def Let_def)
  from sample_d_cases [OF assms(3), of B g2] pos B d dr show ?thesis by auto
qed

text \<open>
  C5. For every batch size \<open>B\<close>, the step sizes \<open>d\<close> of \<open>train_forward\<close> have their
  first \<open>floor(0.75 * B)\<close> entries equal to 0, and every later entry is one of the seven
  values \<open>1/2, 1/4, \<dots>, 1/128\<close>. The only batch for which no \<open>d\<close> is produced is the
  empty one, where the draw of zero samples raises.
\<close>

theorem train_forward_step_sizes:
  assumes "categorical_ok T" and "shape latents = B # rest"
  shows "case train_forward T N denoiser cond latents g h of
           Inl e \<Rightarrow> B = 0
         | Inr (r, g', h') \<Rightarrow>
             0 < B \<and> length (entries (d_of r)) = B \<and>
             take (nat \<lfloor>0.75 * real B\<rfloor>) (entries (d_of r)) = replicate (nat \<lfloor>0.75 * real B\<rfloor>) 0 \<and>
             set (drop (nat \<lfloor>0.75 * real B\<rfloor>) (entries (d_of r))) \<subseteq> (\<lambda>k. 1 / 2 ^ k) ` {1..7::nat}"
proof (cases "B = 0")
  case True
  with assms(2) train_forward_empty_batch [of latents rest T N denoiser cond g h]
  show ?thesis by simp
next
  case False
  then have pos: "0 < B" by simp
  from train_forward_returns [OF assms pos, of N denoiser cond g h]
  obtain r g' h' where run: "train_forward T N denoiser cond latents g h = Inr (r, g', h')"
    by blast
  from train_forward_d_of [OF run assms(2) assms(1)]
  obtain idx where len: "length idx = B" and rng: "\<forall>i \<in> set idx. i < 7"
    and dr: "d_of r = vector (zero_prefix (flow_size B) (map (\<lambda>i. deltas ! i) idx))"
    by blast
  let ?xs = "map (\<lambda>i. deltas ! i) idx"
  have l: "length ?xs = B" using len by simp
  have e: "entries (d_of r) = zero_prefix (flow_size B) ?xs"
    by (simp add: dr vector_def)
  have "set (drop (flow_size B) ?xs) \<subseteq> set ?xs" by (rule set_drop_subset)
  also have "\<dots> \<subseteq> set deltas" using rng by (auto simp: length_deltas)
  finally have sub: "set (drop (flow_size B) ?xs) \<subseteq> (\<lambda>k. 1 / 2 ^ k) ` {1..7::nat}"
    by (simp add: set_deltas)
  have k: "nat \<lfloor>0.75 * real B\<rfloor> = flow_size B"
    by (rule flow_size_floor [symmetric])
  show ?thesis
    unfolding k run
    using pos sub zero_prefix_props [OF l flow_size_le [of B]]
    by (simp add: e)
qed

lemma length_from_tape: "length (from_tape n pad tape) = n"
  by (simp add: from_tape_def)

lemma categorical_ok_tape: "categorical_ok tape_rng"
  by (auto simp: categorical_ok_def tape_rng_def length_from_tape)

lemma randn_ok_tape: "randn_ok tape_rng"
  by (auto simp: randn_ok_def tape_rng_def length_from_tape)

lemma choice_ok_tape: "choice_ok tape_np"
  by (auto simp: choice_ok_def tape_np_def length_from_tape)

theorem train_forward_step_sizes_witness:
  "categorical_ok tape_rng \<and> shape (column [1, 2, 3, 4]) = 4 # [1, 1, 1] \<and>
   (case train_forward tape_rng tape_np zero_oracle (example_cond 4) (column [1, 2, 3, 4])
           ([], [0, 1, 2, 6]) [] of
      Inl e \<Rightarrow> False
    | Inr (r, g', h') \<Rightarrow>
        length (entries (d_of r)) = 4 \<and> take 3 (entries (d_of r)) = [0, 0, 0] \<and>
        set (drop 3 (entries (d_of r))) \<subseteq> (\<lambda>k. 1 / 2 ^ k) ` {1..7::nat})"
proof -
  have sh: "shape (column [1, 2, 3, 4]) = 4 # [1, 1, 1]" by (simp add: column_def)
  have fl: "nat \<lfloor>0.75 * real 4\<rfloor> = 3" by simp
  have rp: "replicate 3 (0::real) = [0, 0, 0]" by (simp add: numeral_3_eq_3)
  show ?thesis
    using train_forward_step_sizes [OF categorical_ok_tape sh, of tape_np zero_oracle
        "example_cond 4" "([], [0, 1, 2, 6])" "[]"]
    unfolding fl rp
    by (auto simp: categorical_ok_tape sh split: sum.splits)
qed

subsection \<open>The degenerate batch\<close>

lemma consistency_size_zero_iff: "B - flow_size B = 0 \<longleftrightarrow> B = 0"
  by (auto simp: flow_size_def)

lemma consistency_size_small: "0 < B \<Longrightarrow> B < 4 \<Longrightarrow> B - flow_size B = 1"
proof -
  assume "0 < B" "B < 4"
  then have "B = 1 \<or> B = 2 \<or> B = 3" by arith
  then show ?thesis by (auto simp: flow_size_def)
qed

lemma train_forward_loss_sum:
  assumes "train_forward T N denoiser cond latents g h = Inr (r, g', h')"
  shows "loss r = add_num (add_num (Some 0) (flow_loss r)) (consistency_loss r)"
proof -
  from assms obtain B rest noise g1 z g2 ds flags where
    sh: "shape latents = B # rest" and pos: "0 < B"
    and n: "torch_randn T (numel latents) g = (noise, g1)"
    and z: "torch_randn T B g1 = (z, g2)"
    and d: "sample_d T B g2 = Inr (vector ds, g')"
    and c: "np_choice N (1 / 2) (B - flow_size B) h = (flags, h')"
    by (rule train_forward_InrE)
  from train_forward_eq [OF sh n z d c, of denoiser cond] assms
  show ?thesis by (auto simp: train_result_def Let_def)
qed

text \<open>
  C2, as the code has it. The consistency subset holds \<open>B - int(B * 3/4)\<close> examples: it
  is empty only for the empty batch, and for batch sizes one to three it holds exactly one
  example. \<open>train_forward\<close> has no guard for an empty subset: whenever it returns losses
  the consistency subset is not empty and the total loss is \<open>0 + flow_loss +
  consistency_loss\<close>; for the empty batch the draw of the step sizes raises and no loss is
  returned.
\<close>

theorem consistency_subset_never_empty:
  assumes "shape latents = B # rest"
  shows "(B - flow_size B = 0 \<longleftrightarrow> B = 0) \<and>
         (0 < B \<and> B < 4 \<longrightarrow> B - flow_size B = 1) \<and>
         (case train_forward T N denoiser cond latents g h of
            Inl e \<Rightarrow> True
          | Inr (r, g', h') \<Rightarrow>
              0 < B - flow_size B \<and>
              loss r = add_num (add_num (Some 0) (flow_loss r)) (consistency_loss r)) \<and>
         (B = 0 \<longrightarrow> train_forward T N denoiser cond latents g h = Inl RuntimeError)"
proof (intro conjI impI)
  show "B - flow_size B = 0 \<longleftrightarrow> B = 0" by (rule consistency_size_zero_iff)
next
  assume "0 < B \<and> B < 4"
  then show "B - flow_size B = 1" by (simp add: consistency_size_small)
next
  show "case train_forward T N denoiser cond latents g h of
            Inl e \<Rightarrow> True
          | Inr (r, g', h') \<Rightarrow>
              0 < B - flow_size B \<and>
              loss r = add_num (add_num (Some 0) (flow_loss r)) (consistency_loss r)"
  proof (cases "train_forward T N denoiser cond latents g h")
    case (Inl e)
    then show ?thesis by simp
  next
    case (Inr p)
    obtain r g' h' where p: "p = (r, g', h')" by (cases p)
    from Inr p have run: "train_forward T N denoiser cond latents g h = Inr (r, g', h')" by simp
    from run obtain B' rest' where "shape latents = B' # rest'" "0 < B'"
      by (rule train_forward_InrE)
    with assms have "0 < B" by simp
    then have "0 < B - flow_size B" using consistency_size_zero_iff [of B] by simp
    with train_forward_loss_sum [OF run] show ?thesis by (simp add: run)
  qed
next
  assume "B = 0"
  with assms show "train_forward T N denoiser cond latents g h = Inl RuntimeError"
    by (simp add: train_forward_empty_batch)
qed

theorem consistency_subset_never_empty_witness:
  "shape (column [1, 2, 3]) = 3 # [1, 1, 1] \<and> 3 - flow_size 3 = 1 \<and>
   (case train_forward tape_rng tape_np zero_oracle (example_cond 3) (column [1, 2, 3])
           ([], [0, 1, 2]) [] of
      Inl e \<Rightarrow> True
    | Inr (r, g', h') \<Rightarrow>
        loss r = add_num (add_num (Some 0) (flow_loss r)) (consistency_loss r)) \<and>
   shape (column []) = 0 # [1, 1, 1] \<and>
   train_forward tape_rng tape_np zero_oracle (example_cond 0) (column []) ([], []) [] = Inl RuntimeError"
proof -
  have sh3: "shape (column [1, 2, 3]) = 3 # [1, 1, 1]" by (simp add: column_def)
  have sh0: "shape (column []) = 0 # [1, 1, 1]" by (simp add: column_def)
  show ?thesis
    using consistency_subset_never_empty [OF sh3, of tape_rng tape_np zero_oracle
        "example_cond 3" "([], [0, 1, 2])" "[]"]
      consistency_subset_never_empty [OF sh0, of tape_rng tape_np zero_oracle
        "example_cond 0" "([], [])" "[]"]
    by (auto simp: sh3 sh0 split: sum.splits)
qed

text \<open>
  C2 as stated fails: on the only kind of batch whose consistency subset is empty,
  \<open>train_forward\<close> ends in an error instead of reporting the flow loss alone.
\<close>

theorem empty_batch_raises:
  "train_forward tape_rng tape_np zero_oracle (example_cond 0) (column []) ([], []) []
     = Inl RuntimeError"
  by (simp add: train_forward_empty_batch [of _ "[1, 1, 1]"] column_def)

subsection \<open>The consistency branch\<close>

lemma entries_vector: "entries (vector xs) = xs"
  by (simp add: vector_def)

lemma entries_column: "entries (column xs) = xs"
  by (simp add: column_def)

lemma example_run:
  "\<exists>r. train_forward tape_rng tape_np echo_oracle (example_cond 2) (column [1, 2])
          ([0, 0, 0, ln 3], [0, 0]) [True] = Inr (r, ([], []), []) \<and>
       x0_noise_of r = column [0, 0] \<and> t_of r = vector [1 / 2, 3 / 4] \<and>
       d_of r = vector [0, 1 / 2] \<and> force_cfg_of r = [True] \<and>
       fst (calls_of r ! 0) =
         \<lparr>x_arg = column [1 / 2], timesteps_arg = vector [1 / 2], seed_arg = [0],
          at_feat_arg = [0], intent_feat_arg = Some [0], cond_time_arg = vector [0],
          instance_ids_arg = Some [0], style_features_arg = None, force_cfg_arg = None\<rparr> \<and>
       map snd (calls_of r) = [False, True, True, False] \<and>
       flow_loss r = Some (5 / 12) \<and> consistency_loss r = Some (9 / 64) \<and>
       loss r = Some (107 / 192)"
proof -
  have sh: "shape (column [1, 2]) = 2 # [1, 1, 1]" by (simp add: column_def)
  show ?thesis
    unfolding train_forward_eq [OF sh example_draws] train_result_def Let_def
    by (simp add: column_ops column_literal vector_literal example_cond_2 sigmoid_0 sigmoid_ln3
        flow_size_def echo_oracle_def mean_def mean_num_def div_num_def add_num_def
        shape_column power2_eq_square)
qed

text \<open>
  C3. In the consistency branch of \<open>train_forward\<close> the oracle is called three times on
  the consistency subset, with the same conditioning slice and the same flags: at
  \<open>(x_t, t, cond_time = d)\<close> inside \<open>no_grad\<close>, giving \<open>speed_t\<close>; at
  \<open>(x_t + d * speed_t, t + d, cond_time = d)\<close> inside \<open>no_grad\<close>, giving \<open>speed_td\<close>;
  and at \<open>(x_t, t, cond_time = 2 * d)\<close> outside of it, giving the prediction. The target
  is \<open>(speed_t + speed_td) / 2\<close>, and the consistency loss is the mean squared error
  between the prediction and the target. Every batch that is not empty reaches the branch.
\<close>

theorem consistency_branch:
  assumes "categorical_ok T" and "shape latents = B # rest" and "0 < B"
  shows "\<exists>r g' h'. train_forward T N denoiser cond latents g h = Inr (r, g', h') \<and>
     (let f = flow_size B;
          t = t_of r;
          d = d_of r;
          t_coef = \<lparr>shape = [length (entries t), 1, 1, 1], entries = entries t\<rparr>;
          d_coef = \<lparr>shape = [length (entries d), 1, 1, 1], entries = entries d\<rparr>;
          x_t = tadd (tmul t_coef latents) (tmul (tmap (\<lambda>v. 1 - v) t_coef) (x0_noise_of r));
          args_t = \<lparr>x_arg = drop_rows f x_t,
                    timesteps_arg = drop_rows f t,
                    seed_arg = drop f (seed_vectors cond),
                    at_feat_arg = drop f (at_feat cond),
                    intent_feat_arg = map_option (drop f) (intent_feat cond),
                    cond_time_arg = drop_rows f d,
                    instance_ids_arg = Some (drop f (instance_ids cond)),
                    style_features_arg = map_option (drop f) (style_features cond),
                    force_cfg_arg = Some (force_cfg_of r)\<rparr>;
          speed_t = denoiser args_t;
          x_td = tadd (drop_rows f x_t) (tmul (drop_rows f d_coef) speed_t);
          args_td = args_t\<lparr>x_arg := x_td, timesteps_arg := tadd (drop_rows f t) (drop_rows f d)\<rparr>;
          speed_td = denoiser args_td;
          speed_target = tmap (\<lambda>v. v / 2) (tadd speed_t speed_td);
          args_pred = args_t\<lparr>cond_time_arg := tmap (\<lambda>v. 2 * v) (drop_rows f d)\<rparr>
      in length (calls_of r) = 4 \<and>
         drop 1 (calls_of r) = [(args_t, True), (args_td, True), (args_pred, False)] \<and>
         consistency_loss r = mse_loss (denoiser args_pred) speed_target)"
proof -
  from train_forward_returns [OF assms, of N denoiser cond g h]
  obtain r g' h' where run: "train_forward T N denoiser cond latents g h = Inr (r, g', h')"
    by blast
  from run assms(2) obtain noise z ds flags where
    r: "r = train_result denoiser cond latents B noise z ds flags"
    by (rule train_forward_run)
  have "(let f = flow_size B;
          t = t_of r;
          d = d_of r;
          t_coef = \<lparr>shape = [length (entries t), 1, 1, 1], entries = entries t\<rparr>;
          d_coef = \<lparr>shape = [length (entries d), 1, 1, 1], entries = entries d\<rparr>;
          x_t = tadd (tmul t_coef latents) (tmul (tmap (\<lambda>v. 1 - v) t_coef) (x0_noise_of r));
          args_t = \<lparr>x_arg = drop_rows f x_t,
                    timesteps_arg = drop_rows f t,
                    seed_arg = drop f (seed_vectors cond),
                    at_feat_arg = drop f (at_feat cond),
                    intent_feat_arg = map_option (drop f) (intent_feat cond),
                    cond_time_arg = drop_rows f d,
                    instance_ids_arg = Some (drop f (instance_ids cond)),
                    style_features_arg = map_option (drop f) (style_features cond),
                    force_cfg_arg = Some (force_cfg_of r)\<rparr>;
          speed_t = denoiser args_t;
          x_td = tadd (drop_rows f x_t) (tmul (drop_rows f d_coef) speed_t);
          args_td = args_t\<lparr>x_arg := x_td, timesteps_arg := tadd (drop_rows f t) (drop_rows f d)\<rparr>;
          speed_td = denoiser args_td;
          speed_target = tmap (\<lambda>v. v / 2) (tadd speed_t speed_td);
          args_pred = args_t\<lparr>cond_time_arg := tmap (\<lambda>v. 2 * v) (drop_rows f d)\<rparr>
      in length (calls_of r) = 4 \<and>
         drop 1 (calls_of r) = [(args_t, True), (args_td, True), (args_pred, False)] \<and>
         consistency_loss r = mse_loss (denoiser args_pred) speed_target)"
    by (simp add: r train_result_def Let_def vector_def)
  with run show ?thesis by blast
qed

theorem consistency_branch_witness:
  "categorical_ok tape_rng \<and> shape (column [1, 2]) = 2 # [1, 1, 1] \<and> (0::nat) < 2 \<and>
   (\<exists>r g' h'. train_forward tape_rng tape_np echo_oracle (example_cond 2) (column [1, 2])
          ([0, 0, 0, ln 3], [0, 0]) [True] = Inr (r, g', h') \<and>
       length (calls_of r) = 4 \<and> map snd (drop 1 (calls_of r)) = [True, True, False] \<and>
       map (\<lambda>c. cond_time_arg (fst c)) (drop 1 (calls_of r)) = [vector [1 / 2], vector [1 / 2], vector [1]] \<and>
       map (\<lambda>c. x_arg (fst c)) (drop 1 (calls_of r)) = [column [3 / 2], column [9 / 4], column [3 / 2]] \<and>
       consistency_loss r = Some (9 / 64))"
proof -
  have sh: "shape (column [1, 2]) = 2 # [1, 1, 1]" by (simp add: column_def)
  have pos: "(0::nat) < 2" by simp
  from consistency_branch [OF categorical_ok_tape sh pos, of tape_np echo_oracle "example_cond 2"
      "([0, 0, 0, ln 3], [0, 0])" "[True]"]
  obtain r g' h' where
    run: "train_forward tape_rng tape_np echo_oracle (example_cond 2) (column [1, 2])
          ([0, 0, 0, ln 3], [0, 0]) [True] = Inr (r, g', h')"
    and branch: "(let f = flow_size 2;
          t = t_of r;
          d = d_of r;
          t_coef = \<lparr>shape = [length (entries t), 1, 1, 1], entries = entries t\<rparr>;
          d_coef = \<lparr>shape = [length (entries d), 1, 1, 1], entries = entries d\<rparr>;
          x_t = tadd (tmul t_coef (column [1, 2])) (tmul (tmap (\<lambda>v. 1 - v) t_coef) (x0_noise_of r));
          args_t = \<lparr>x_arg = drop_rows f x_t,
                    timesteps_arg = drop_rows f t,
                    seed_arg = drop f (seed_vectors (example_cond 2)),
                    at_feat_arg = drop f (at_feat (example_cond 2)),
                    intent_feat_arg = map_option (drop f) (intent_feat (example_cond 2)),
                    cond_time_arg = drop_rows f d,
                    instance_ids_arg = Some (drop f (instance_ids (example_cond 2))),
                    style_features_arg = map_option (drop f) (style_features (example_cond 2)),
                    force_cfg_arg = Some (force_cfg_of r)\<rparr>;
          speed_t = echo_oracle args_t;
          x_td = tadd (drop_rows f x_t) (tmul (drop_rows f d_coef) speed_t);
          args_td = args_t\<lparr>x_arg := x_td, timesteps_arg := tadd (drop_rows f t) (drop_rows f d)\<rparr>;
          speed_td = echo_oracle args_td;
          speed_target = tmap (\<lambda>v. v / 2) (tadd speed_t speed_td);
          args_pred = args_t\<lparr>cond_time_arg := tmap (\<lambda>v. 2 * v) (drop_rows f d)\<rparr>
      in length (calls_of r) = 4 \<and>
         drop 1 (calls_of r) = [(args_t, True), (args_td, True), (args_pred, False)] \<and>
         consistency_loss r = mse_loss (echo_oracle args_pred) speed_target)"
    by blast
  from example_run run have
    fields: "x0_noise_of r = column [0, 0]" "t_of r = vector [1 / 2, 3 / 4]"
      "d_of r = vector [0, 1 / 2]" "force_cfg_of r = [True]"
    by auto
  from branch have vals:
    "length (calls_of r) = 4 \<and> map snd (drop 1 (calls_of r)) = [True, True, False] \<and>
       map (\<lambda>c. cond_time_arg (fst c)) (drop 1 (calls_of r)) = [vector [1 / 2], vector [1 / 2], vector [1]] \<and>
       map (\<lambda>c. x_arg (fst c)) (drop 1 (calls_of r)) = [column [3 / 2], column [9 / 4], column [3 / 2]] \<and>
       consistency_loss r = Some (9 / 64)"
    unfolding fields Let_def
    by (simp add: column_ops column_literal vector_literal example_cond_2
        flow_size_def echo_oracle_def mean_def power2_eq_square entries_vector)
  from run vals have ex:
    "\<exists>r g' h'. train_forward tape_rng tape_np echo_oracle (example_cond 2) (column [1, 2])
          ([0, 0, 0, ln 3], [0, 0]) [True] = Inr (r, g', h') \<and>
       length (calls_of r) = 4 \<and> map snd (drop 1 (calls_of r)) = [True, True, False] \<and>
       map (\<lambda>c. cond_time_arg (fst c)) (drop 1 (calls_of r)) = [vector [1 / 2], vector [1 / 2], vector [1]] \<and>
       map (\<lambda>c. x_arg (fst c)) (drop 1 (calls_of r)) = [column [3 / 2], column [9 / 4], column [3 / 2]] \<and>
       consistency_loss r = Some (9 / 64)"
    by - (rule exI, rule exI, rule exI, erule conjI, assumption)
  from categorical_ok_tape sh pos ex show ?thesis by (intro conjI)
qed

subsection \<open>The flow loss\<close>

lemma sigmoid_bounds: "0 < sigmoid z \<and> sigmoid z < 1"
proof
  have p: "0 < 1 + exp (- z)" by (rule add_pos_pos) simp_all
  have "0 < 1 / (1 + exp (- z))" by (rule divide_pos_pos [OF zero_less_one p])
  then show "0 < sigmoid z" unfolding sigmoid_def .
  have "1 / (1 + exp (- z)) < 1 / 1"
    using p by (intro divide_strict_left_mono) simp_all
  then show "sigmoid z < 1" by (simp only: sigmoid_def div_by_1)
qed

lemma mean_num_div_Some:
  assumes "ts \<noteq> []" and "\<forall>v \<in> set ts. v \<noteq> 0"
  shows "mean_num (map (div_num (Some m)) ts) = Some (m * (\<Sum>v\<leftarrow>ts. 1 / v) / real (length ts))"
proof -
  have e: "map (div_num (Some m)) ts = map (\<lambda>v. Some (m / v)) ts"
    using assms(2) by (simp add: div_num_def)
  have s: "(\<Sum>v\<leftarrow>ts. m / v) = m * (\<Sum>v\<leftarrow>ts. 1 / v)"
    using sum_list_const_mult [of m "\<lambda>v. 1 / v" ts] by simp
  have n: "None \<notin> set (map (\<lambda>v. Some (m / v)) ts)" by auto
  show ?thesis
    unfolding e mean_num_def using assms(1) n by (simp add: comp_def s)
qed

lemma mean_num_div_None: "mean_num (map (div_num None) ts) = None"
  by (cases ts) (simp_all add: mean_num_def div_num_def)

text \<open>
  C1, as the code has it. \<open>F.mse_loss(flow_target, flow_pred)\<close> is one number, the mean
  squared error over every entry of the flow subset, and \<open>t\<close> holds the time values of
  the whole batch, all of them strictly between 0 and 1. The flow loss is that number
  divided by each of the \<open>B\<close> time values, averaged over the \<open>B\<close> quotients: the mean
  squared error times the mean of \<open>1 / t\<^sub>i\<close> over the whole batch (and not a number when
  the flow subset has no entry).
\<close>

theorem flow_loss_formula:
  assumes "randn_ok T"
      and "train_forward T N denoiser cond latents g h = Inr (r, g', h')"
      and "shape latents = B # rest"
  shows "length (entries (t_of r)) = B \<and> (\<forall>v \<in> set (entries (t_of r)). 0 < v \<and> v < 1) \<and>
         flow_loss r =
           (case mse_loss (tsub (take_rows (flow_size B) latents) (take_rows (flow_size B) (x0_noise_of r)))
                          (denoiser (fst (calls_of r ! 0))) of
              None \<Rightarrow> None
            | Some m \<Rightarrow> Some (m * (\<Sum>v\<leftarrow>entries (t_of r). 1 / v) / real B))"
proof -
  from assms(2,3) obtain noise g1 z g2 ds flags where
    pos: "0 < B" and zd: "torch_randn T B g1 = (z, g2)"
    and r: "r = train_result denoiser cond latents B noise z ds flags"
    by (rule train_forward_run)
  from assms(1) have "length (fst (torch_randn T B g1)) = B"
    unfolding randn_ok_def by blast
  with zd have lz: "length z = B" by simp
  have t: "entries (t_of r) = map sigmoid z"
    by (simp add: r train_result_def Let_def vector_def)
  have b: "\<forall>v \<in> set (map sigmoid z). 0 < v \<and> v < 1"
    using sigmoid_bounds by auto
  then have nz: "\<forall>v \<in> set (map sigmoid z). v \<noteq> 0" by auto
  have ne: "map sigmoid z \<noteq> []" using lz pos by auto
  let ?m = "mse_loss (tsub (take_rows (flow_size B) latents) (take_rows (flow_size B) (x0_noise_of r)))
                     (denoiser (fst (calls_of r ! 0)))"
  have fl: "flow_loss r = mean_num (map (div_num ?m) (map sigmoid z))"
    by (simp add: r train_result_def Let_def)
  have "flow_loss r = (case ?m of None \<Rightarrow> None
            | Some m \<Rightarrow> Some (m * (\<Sum>v\<leftarrow>map sigmoid z. 1 / v) / real B))"
  proof (cases ?m)
    case None
    show ?thesis by (simp only: fl None mean_num_div_None option.case)
  next
    case (Some m)
    have "mean_num (map (div_num (Some m)) (map sigmoid z))
          = Some (m * (\<Sum>v\<leftarrow>map sigmoid z. 1 / v) / real B)"
      unfolding mean_num_div_Some [OF ne nz, of m] using lz by simp
    then show ?thesis by (simp only: fl Some option.case)
  qed
  with lz b show ?thesis unfolding t by simp
qed

lemma example_training_run:
  "train_forward tape_rng tape_np echo_oracle (example_cond 2) (column [1, 2])
          ([0, 0, 0, ln 3], [0, 0]) [True] = Inr (example_training_run, ([], []), [])"
  using example_run by (auto simp: example_training_run_def)

lemma example_fields:
  "x0_noise_of example_training_run = column [0, 0]"
  "t_of example_training_run = vector [1 / 2, 3 / 4]"
  "d_of example_training_run = vector [0, 1 / 2]"
  "force_cfg_of example_training_run = [True]"
  "fst (calls_of example_training_run ! 0) =
         \<lparr>x_arg = column [1 / 2], timesteps_arg = vector [1 / 2], seed_arg = [0],
          at_feat_arg = [0], intent_feat_arg = Some [0], cond_time_arg = vector [0],
          instance_ids_arg = Some [0], style_features_arg = None, force_cfg_arg = None\<rparr>"
  "flow_loss example_training_run = Some (5 / 12)"
  "consistency_loss example_training_run = Some (9 / 64)"
  "loss example_training_run = Some (107 / 192)"
  using example_run by (auto simp: example_training_run_def)

theorem flow_loss_formula_witness:
  "randn_ok tape_rng \<and>
   train_forward tape_rng tape_np echo_oracle (example_cond 2) (column [1, 2])
          ([0, 0, 0, ln 3], [0, 0]) [True] = Inr (example_training_run, ([], []), []) \<and>
   shape (column [1, 2]) = 2 # [1, 1, 1] \<and>
   length (entries (t_of example_training_run)) = 2 \<and>
   mse_loss (tsub (take_rows (flow_size 2) (column [1, 2]))
                  (take_rows (flow_size 2) (x0_noise_of example_training_run)))
            (echo_oracle (fst (calls_of example_training_run ! 0))) = Some (1 / 4) \<and>
   flow_loss example_training_run = Some (1 / 4 * (1 / (1 / 2) + 1 / (3 / 4)) / 2)"
proof -
  have sh: "shape (column [1, 2]) = 2 # [1, 1, 1]" by (simp add: column_def)
  have m: "mse_loss (tsub (take_rows (flow_size 2) (column [1, 2]))
                  (take_rows (flow_size 2) (x0_noise_of example_training_run)))
            (echo_oracle (fst (calls_of example_training_run ! 0))) = Some (1 / 4)"
    by (simp add: example_fields column_ops flow_size_def echo_oracle_def mean_def power2_eq_square)
  from flow_loss_formula [OF randn_ok_tape example_training_run sh]
  have "length (entries (t_of example_training_run)) = 2"
    and "flow_loss example_training_run = Some (1 / 4 * (1 / (1 / 2) + 1 / (3 / 4)) / 2)"
    unfolding m by (simp_all add: example_fields entries_vector)
  with randn_ok_tape example_training_run sh m show ?thesis by (intro conjI)
qed

text \<open>
  C1 as stated fails. On a batch of two examples with times \<open>1/2\<close> and \<open>3/4\<close>, whose
  flow subset is the first example with squared error \<open>1/4\<close>, \<open>train_forward\<close> reports
  the flow loss \<open>5/12\<close>; the mean over the flow subset of the per-example error divided
  by the example's own time is \<open>1/2\<close>.
\<close>

theorem flow_loss_differs_from_spec:
  "train_forward tape_rng tape_np echo_oracle (example_cond 2) (column [1, 2])
          ([0, 0, 0, ln 3], [0, 0]) [True] = Inr (example_training_run, ([], []), []) \<and>
   flow_loss example_training_run = Some (5 / 12) \<and>
   flow_loss_spec (echo_oracle (fst (calls_of example_training_run ! 0)))
                  (tsub (take_rows (flow_size 2) (column [1, 2]))
                        (take_rows (flow_size 2) (x0_noise_of example_training_run)))
                  (take (flow_size 2) (entries (t_of example_training_run))) = Some (1 / 2)"
proof -
  have "flow_loss_spec (echo_oracle (fst (calls_of example_training_run ! 0)))
                  (tsub (take_rows (flow_size 2) (column [1, 2]))
                        (take_rows (flow_size 2) (x0_noise_of example_training_run)))
                  (take (flow_size 2) (entries (t_of example_training_run))) = Some (1 / 2)"
    by (simp add: example_fields column_ops flow_size_def echo_oracle_def flow_loss_spec_def
        row_def shape_column entries_column entries_vector mean_def mean_num_def div_num_def
        power2_eq_square)
  with example_training_run example_fields(6) show ?thesis by (intro conjI)
qed

subsection \<open>The time samplers\<close>

lemma scale_bounds:
  fixes v :: real
  assumes "lo < hi"
  shows "0 \<le> v \<Longrightarrow> lo \<le> v * (hi - lo) + lo"
    and "v \<le> 1 \<Longrightarrow> v * (hi - lo) + lo \<le> hi"
    and "0 < v \<Longrightarrow> lo < v * (hi - lo) + lo"
    and "v < 1 \<Longrightarrow> v * (hi - lo) + lo < hi"
proof -
  have d: "0 < hi - lo" using assms by simp
  show "0 \<le> v \<Longrightarrow> lo \<le> v * (hi - lo) + lo"
    using d by (simp add: mult_nonneg_nonneg)
  show "0 < v \<Longrightarrow> lo < v * (hi - lo) + lo"
    using d by (simp add: mult_pos_pos)
  show "v \<le> 1 \<Longrightarrow> v * (hi - lo) + lo \<le> hi"
  proof -
    assume "v \<le> 1"
    then have "v * (hi - lo) \<le> 1 * (hi - lo)" using d by (intro mult_right_mono) simp_all
    then show ?thesis by simp
  qed
  show "v < 1 \<Longrightarrow> v * (hi - lo) + lo < hi"
  proof -
    assume "v < 1"
    then have "v * (hi - lo) < 1 * (hi - lo)" using d by (intro mult_strict_right_mono) simp_all
    then show ?thesis by simp
  qed
qed

lemma default_bounds: "t_min_default < t_max_default"
  by (simp add: t_min_default_def t_max_default_def)

lemma inverse_cdf_range:
  fixes a u :: real
  assumes "0 < a" and "0 \<le> u" and "u < 1"
  shows "0 \<le> (1 / a) * ln (1 + u * (exp a - 1)) \<and> (1 / a) * ln (1 + u * (exp a - 1)) < 1"
proof -
  have e: "0 < exp a - 1" using assms(1) by simp
  have lo: "1 \<le> 1 + u * (exp a - 1)" using assms(2) e by (simp add: mult_nonneg_nonneg)
  have "u * (exp a - 1) < 1 * (exp a - 1)" using assms(3) e by (intro mult_strict_right_mono)
  then have hi: "1 + u * (exp a - 1) < exp a" by simp
  from lo have l0: "0 \<le> ln (1 + u * (exp a - 1))" by simp
  from lo hi have "ln (1 + u * (exp a - 1)) < ln (exp a)"
    by (intro iffD2 [OF ln_less_cancel_iff]) simp_all
  then have l1: "ln (1 + u * (exp a - 1)) < a" by simp
  from l0 assms(1) have "0 \<le> (1 / a) * ln (1 + u * (exp a - 1))" by simp
  moreover from l1 assms(1) have "(1 / a) * ln (1 + u * (exp a - 1)) < 1"
    by (simp add: field_simps)
  ultimately show ?thesis by simp
qed

lemma cosmap_range:
  fixes u :: real
  assumes "0 \<le> u" and "u < 1"
  shows "0 \<le> 1 - 1 / (tan (pi / 2 * u) + 1) \<and> 1 - 1 / (tan (pi / 2 * u) + 1) < 1"
proof -
  have x0: "0 \<le> pi / 2 * u" using assms(1) by simp
  have "pi / 2 * u < pi / 2 * 1" using assms(2) by (intro mult_strict_left_mono) simp_all
  then have x1: "pi / 2 * u < pi / 2" by simp
  from x0 x1 have t: "0 \<le> tan (pi / 2 * u)" by (rule tan_pos_pi2_le)
  then have p: "0 < tan (pi / 2 * u) + 1" by simp
  from t have "1 / (tan (pi / 2 * u) + 1) \<le> 1" using p by (simp add: field_simps)
  moreover from p have "0 < 1 / (tan (pi / 2 * u) + 1)" by simp
  ultimately show ?thesis by simp
qed

lemma sample_cosmap_range:
  assumes "rand_ok T"
  shows "length (fst (sample_cosmap T n t_min_default t_max_default g)) = n \<and>
         (\<forall>v \<in> set (fst (sample_cosmap T n t_min_default t_max_default g)).
              t_min_default \<le> v \<and> v < t_max_default)"
proof -
  obtain u g1 where draw: "torch_rand T n g = (u, g1)" by (cases "torch_rand T n g")
  from assms have "length (fst (torch_rand T n g)) = n"
    and "\<forall>x \<in> set (fst (torch_rand T n g)). 0 \<le> x \<and> x < 1"
    unfolding rand_ok_def by blast+
  with draw have len: "length u = n" and rng: "\<forall>x \<in> set u. 0 \<le> x \<and> x < 1" by simp_all
  have res: "fst (sample_cosmap T n t_min_default t_max_default g)
        = map (\<lambda>x. (1 - 1 / (tan (pi / 2 * x) + 1)) * (t_max_default - t_min_default) + t_min_default) u"
    by (simp add: sample_cosmap_def draw Let_def comp_def)
  have "t_min_default \<le> (1 - 1 / (tan (pi / 2 * x) + 1)) * (t_max_default - t_min_default) + t_min_default \<and>
        (1 - 1 / (tan (pi / 2 * x) + 1)) * (t_max_default - t_min_default) + t_min_default < t_max_default"
    if "x \<in> set u" for x
  proof -
    from that rng have "0 \<le> x" "x < 1" by auto
    from cosmap_range [OF this] scale_bounds(1,4) [OF default_bounds]
    show ?thesis by blast
  qed
  then show ?thesis unfolding res using len by auto
qed

lemma sample_beta_range:
  assumes "beta_ok T"
  shows "length (fst (sample_beta_distribution T n alpha beta t_min_default t_max_default g)) = n \<and>
         (\<forall>v \<in> set (fst (sample_beta_distribution T n alpha beta t_min_default t_max_default g)).
              t_min_default < v \<and> v < t_max_default)"
proof -
  obtain s g1 where draw: "torch_beta T alpha beta n g = (s, g1)"
    by (cases "torch_beta T alpha beta n g")
  from assms have "length (fst (torch_beta T alpha beta n g)) = n"
    and "\<forall>x \<in> set (fst (torch_beta T alpha beta n g)). 0 < x \<and> x < 1"
    unfolding beta_ok_def by blast+
  with draw have len: "length s = n" and rng: "\<forall>x \<in> set s. 0 < x \<and> x < 1" by simp_all
  have res: "fst (sample_beta_distribution T n alpha beta t_min_default t_max_default g)
        = map (\<lambda>x. x * (t_max_default - t_min_default) + t_min_default) s"
    by (simp add: sample_beta_distribution_def draw)
  have "t_min_default < x * (t_max_default - t_min_default) + t_min_default \<and>
        x * (t_max_default - t_min_default) + t_min_default < t_max_default"
    if "x \<in> set s" for x
  proof -
    from that rng have "0 < x" "x < 1" by auto
    with scale_bounds(3,4) [OF default_bounds] show ?thesis by blast
  qed
  then show ?thesis unfolding res using len by auto
qed

lemma sample_t_fast_range:
  assumes "rand_ok T" and "randperm_ok T" and "0 < a"
  shows "\<exists>ts g'. sample_t_fast T n a t_min_default t_max_default g = Inr (ts, g') \<and> length ts = n \<and>
           (\<forall>v \<in> set ts. t_min_default \<le> v \<and> v \<le> t_max_default)"
proof -
  obtain u g1 where draw: "torch_rand T (n * 2) g = (u, g1)"
    by (cases "torch_rand T (n * 2) g")
  from assms(1) have "length (fst (torch_rand T (n * 2) g)) = n * 2"
    and "\<forall>x \<in> set (fst (torch_rand T (n * 2) g)). 0 \<le> x \<and> x < 1"
    unfolding rand_ok_def by blast+
  with draw have len: "length u = n * 2" and rng: "\<forall>x \<in> set u. 0 \<le> x \<and> x < 1" by simp_all
  let ?t = "map (\<lambda>v. (1 / a) * ln (1 + v * (exp a - 1))) u"
  let ?t2 = "?t @ map (\<lambda>v. 1 - v) ?t"
  have lt2: "length ?t2 = n * 4" using len by simp
  have t_rng: "0 \<le> x \<and> x < 1" if "x \<in> set ?t" for x
    using that rng inverse_cdf_range [OF assms(3)] by auto
  have t2_rng: "0 \<le> x \<and> x \<le> 1" if "x \<in> set ?t2" for x
  proof -
    from that have "x \<in> set ?t \<or> (\<exists>y \<in> set ?t. x = 1 - y)" by auto
    then show ?thesis
    proof
      assume "x \<in> set ?t"
      from t_rng [OF this] show ?thesis by simp
    next
      assume "\<exists>y \<in> set ?t. x = 1 - y"
      then obtain y where y: "y \<in> set ?t" "x = 1 - y" by blast
      from t_rng [OF y(1)] y(2) show ?thesis by simp
    qed
  qed
  obtain perm g2 where pdraw: "torch_randperm T (length ?t2) g1 = (perm, g2)"
    by (cases "torch_randperm T (length ?t2) g1")
  from assms(2) have "length (fst (torch_randperm T (length ?t2) g1)) = length ?t2"
    and "set (fst (torch_randperm T (length ?t2) g1)) = {0..<length ?t2}"
    unfolding randperm_ok_def by blast+
  with pdraw have lp: "length perm = length ?t2" and sp: "set perm = {0..<length ?t2}" by simp_all
  have sel: "index_select ?t2 perm = Inr (map (\<lambda>i. ?t2 ! i) perm)"
    unfolding index_select_def using sp by auto
  let ?ts = "map (\<lambda>v. v * (t_max_default - t_min_default) + t_min_default)
                 (take n (map (\<lambda>i. ?t2 ! i) perm))"
  have a0: "a \<noteq> 0" using assms(3) by simp
  have res: "sample_t_fast T n a t_min_default t_max_default g = Inr (?ts, g2)"
    unfolding sample_t_fast_def draw using a0 pdraw sel
    by (simp add: Let_def)
  have l: "length ?ts = n" using lp lt2 by simp
  have "t_min_default \<le> v \<and> v \<le> t_max_default" if "v \<in> set ?ts" for v
  proof -
    from that obtain w where w: "w \<in> set (take n (map (\<lambda>i. ?t2 ! i) perm))"
      and v: "v = w * (t_max_default - t_min_default) + t_min_default" by auto
    from w have "w \<in> set (map (\<lambda>i. ?t2 ! i) perm)" by (rule in_set_takeD)
    then obtain i where "i \<in> set perm" "w = ?t2 ! i" by auto
    with sp have "w \<in> set ?t2" by (metis atLeastLessThan_iff nth_mem)
    from t2_rng [OF this] scale_bounds(1,2) [OF default_bounds] v show ?thesis by blast
  qed
  with res l show ?thesis by blast
qed

text \<open>
  C6, as the code has it. Each time sampler returns exactly \<open>num_samples\<close> values, and
  every value lies in the closed interval from \<open>t_min = 1e-5\<close> to \<open>t_max = 1 - 1e-5\<close>
  that the comments of the samplers name (\<open>Scale to [t_min, t_max]\<close>): the values of
  \<open>sample_t_fast\<close> lie in \<open>[t_min, t_max]\<close>, those of \<open>sample_cosmap\<close> in
  \<open>[t_min, t_max)\<close>, and those of \<open>sample_beta_distribution\<close> strictly inside. The
  uniform draws lie in \<open>[0, 1)\<close>, the Beta draws in \<open>(0, 1)\<close>, and \<open>a\<close> is positive
  (its default is 2).
\<close>

theorem samplers_length_and_range:
  assumes "rand_ok T" and "randperm_ok T" and "beta_ok T" and "0 < a"
  shows "(\<exists>ts g'. sample_t_fast T n a t_min_default t_max_default g = Inr (ts, g') \<and> length ts = n \<and>
             (\<forall>v \<in> set ts. t_min_default \<le> v \<and> v \<le> t_max_default)) \<and>
         (length (fst (sample_cosmap T n t_min_default t_max_default g)) = n \<and>
          (\<forall>v \<in> set (fst (sample_cosmap T n t_min_default t_max_default g)).
              t_min_default \<le> v \<and> v < t_max_default)) \<and>
         (length (fst (sample_beta_distribution T n alpha beta t_min_default t_max_default g)) = n \<and>
          (\<forall>v \<in> set (fst (sample_beta_distribution T n alpha beta t_min_default t_max_default g)).
              t_min_default < v \<and> v < t_max_default))"
  using sample_t_fast_range [OF assms(1,2,4)] sample_cosmap_range [OF assms(1)]
    sample_beta_range [OF assms(3)]
  by blast

lemma rand_ok_tape: "rand_ok tape_rng"
  by (auto simp: rand_ok_def tape_rng_def length_from_tape)

lemma randperm_ok_tape: "randperm_ok tape_rng"
  by (auto simp: randperm_ok_def tape_rng_def)

lemma beta_ok_tape: "beta_ok tape_rng"
  by (auto simp: beta_ok_def tape_rng_def length_from_tape)

theorem samplers_length_and_range_witness:
  "rand_ok tape_rng \<and> randperm_ok tape_rng \<and> beta_ok tape_rng \<and> (0::real) < 2 \<and>
   (\<exists>ts g'. sample_t_fast tape_rng 3 2 t_min_default t_max_default ([1 / 2, 1 / 4], []) = Inr (ts, g') \<and>
        length ts = 3 \<and> t_min_default \<le> ts ! 0 \<and> ts ! 0 \<le> t_max_default) \<and>
   length (fst (sample_cosmap tape_rng 3 t_min_default t_max_default ([1 / 2, 1 / 4], []))) = 3 \<and>
   length (fst (sample_beta_distribution tape_rng 3 2 (8 / 10) t_min_default t_max_default
                  ([1 / 2, 1 / 4], []))) = 3"
proof -
  have pos: "(0::real) < 2" by simp
  note w = samplers_length_and_range [OF rand_ok_tape randperm_ok_tape beta_ok_tape pos,
      of 3 "([1 / 2, 1 / 4], [])" 2 "8 / 10"]
  from w obtain ts g' where
    r: "sample_t_fast tape_rng 3 2 t_min_default t_max_default ([1 / 2, 1 / 4], []) = Inr (ts, g')"
    and l: "length ts = 3"
    and b: "\<forall>v \<in> set ts. t_min_default \<le> v \<and> v \<le> t_max_default"
    by blast
  from l have "ts ! 0 \<in> set ts" by (intro nth_mem) simp
  with b have "t_min_default \<le> ts ! 0 \<and> ts ! 0 \<le> t_max_default" by blast
  with r l have ex: "\<exists>ts g'. sample_t_fast tape_rng 3 2 t_min_default t_max_default ([1 / 2, 1 / 4], []) = Inr (ts, g') \<and>
        length ts = 3 \<and> t_min_default \<le> ts ! 0 \<and> ts ! 0 \<le> t_max_default"
    by blast
  from w have "length (fst (sample_cosmap tape_rng 3 t_min_default t_max_default ([1 / 2, 1 / 4], []))) = 3"
    and "length (fst (sample_beta_distribution tape_rng 3 2 (8 / 10) t_min_default t_max_default
                  ([1 / 2, 1 / 4], []))) = 3"
    by blast+
  with rand_ok_tape randperm_ok_tape beta_ok_tape pos ex show ?thesis by (intro conjI)
qed

text \<open>
  C6 as stated fails: a uniform draw of 0 is mapped to \<open>t_min\<close> itself, which is not
  strictly inside the interval.
\<close>

theorem sample_cosmap_reaches_t_min:
  "fst (sample_cosmap tape_rng 1 t_min_default t_max_default ([0], [])) = [t_min_default]"
  by (simp add: sample_cosmap_def tape_rng_def from_tape_def)

subsection \<open>The reflow variant never returns\<close>

lemma at_feat_unbound: "(load_global ''at_feat'' :: error + 'f pyval) = Inl (NameError ''at_feat'')"
  by (simp add: load_global_def module_globals_def)

lemma load_slice_at_feat: "load_slice ''at_feat'' f = Inl (NameError ''at_feat'')"
  by (simp add: load_slice_def at_feat_unbound)

lemma train_reflow_scalar_latents:
  assumes "shape latents = []"
  shows "train_reflow T N denoiser latents audio_features x0_noise seed_vecs g h = Inl IndexError"
  using assms by (simp add: train_reflow_def)

lemma train_reflow_empty:
  assumes "shape latents = 0 # rest"
  shows "train_reflow T N denoiser latents audio_features x0_noise seed_vecs g h = Inl RuntimeError"
  using assms
  by (simp add: train_reflow_def Let_def sample_d_def multinomial_def split: prod.splits)

lemma train_reflow_name_error:
  assumes "categorical_ok T" and "shape latents = B # rest" and "0 < B"
  shows "train_reflow T N denoiser latents audio_features x0_noise seed_vecs g h
           = Inl (NameError ''at_feat'')"
proof -
  obtain ts g1 where b: "sample_beta_distribution T B 2 (12 / 10) t_min_default t_max_default g = (ts, g1)"
    by (cases "sample_beta_distribution T B 2 (12 / 10) t_min_default t_max_default g")
  from assms(3) sample_d_cases [OF assms(1), of B g1] obtain ds g2 where
    d: "sample_d T B g1 = Inr (vector ds, g2)" by auto
  from assms(2) b d show ?thesis
    by (simp add: train_reflow_def Let_def reshape_coefs_vector load_slice_at_feat)
qed

text \<open>
  C10, as the code has it. No call of \<open>train_reflow\<close> returns a loss dictionary: every
  call ends in an error before the first oracle call is made. For every batch that is not
  empty the error is the NameError of \<open>at_feat\<close>, a name that is neither a parameter of
  \<open>train_reflow\<close> nor assigned in its body nor bound by the module. An empty batch fails
  earlier, in the draw of the step sizes, and latents without dimensions fail at
  \<open>latents.shape[0]\<close>.
\<close>

theorem train_reflow_never_returns:
  assumes "categorical_ok T"
  shows "train_reflow T N denoiser latents audio_features x0_noise seed_vecs g h =
           (case shape latents of
              [] \<Rightarrow> Inl IndexError
            | B # rest \<Rightarrow> if B = 0 then Inl RuntimeError else Inl (NameError ''at_feat''))"
proof (cases "shape latents")
  case Nil
  then show ?thesis by (simp add: train_reflow_scalar_latents)
next
  case (Cons B rest)
  show ?thesis
  proof (cases "B = 0")
    case True
    with Cons show ?thesis by (simp add: train_reflow_empty)
  next
    case False
    with Cons train_reflow_name_error [OF assms, of latents B rest] show ?thesis by simp
  qed
qed

theorem train_reflow_never_returns_witness:
  "categorical_ok tape_rng \<and>
   train_reflow tape_rng tape_np echo_oracle (column [1, 2]) [0, 1 :: nat] (column [0, 0]) [0, 1]
       ([1 / 2, 1 / 4], [0, 0]) [True] = Inl (NameError ''at_feat'')"
  using train_reflow_never_returns [OF categorical_ok_tape, of tape_np echo_oracle "column [1, 2]"
      "[0, 1 :: nat]" "column [0, 0]" "[0, 1 :: nat]" "([1 / 2, 1 / 4], [0, 0])" "[True]"]
  by (simp add: categorical_ok_tape column_def)

text \<open>
  C10 as stated fails: a call on an empty batch ends in the RuntimeError of the step-size
  draw, not in a NameError.
\<close>

theorem train_reflow_empty_batch:
  "train_reflow tape_rng tape_np echo_oracle (column []) ([] :: nat list) (column []) [] ([], []) []
     = Inl RuntimeError"
  by (simp add: train_reflow_empty [of _ "[1, 1, 1]"] column_def)

subsection \<open>The inference integrator\<close>

lemma generation_loop_append:
  "generation_loop M cond dt ts (steps @ steps') state
     = generation_loop M cond dt ts steps' (generation_loop M cond dt ts steps state)"
proof (induction steps arbitrary: state)
  case Nil
  then show ?case by simp
next
  case (Cons s steps)
  obtain x calls where st: "state = (x, calls)" by (cases state)
  show ?case unfolding st by (simp add: Let_def Cons.IH)
qed

lemma generation_loop_calls:
  "\<exists>new. snd (generation_loop M cond dt ts steps (x, calls)) = calls @ new \<and>
         length new = length steps \<and>
         (\<forall>c \<in> set new. snd c \<and> cond_time_arg (fst c) = vector [dt] \<and> force_cfg_arg (fst c) = None)"
proof (induction steps arbitrary: x calls)
  case Nil
  then show ?case by simp
next
  case (Cons s steps)
  let ?args = "\<lparr>x_arg = x, timesteps_arg = vector [ts ! (s - 1)], seed_arg = seed_vectors cond,
                 at_feat_arg = at_feat cond, intent_feat_arg = intent_feat cond,
                 cond_time_arg = vector [dt], instance_ids_arg = Some (instance_ids cond),
                 style_features_arg = style_features cond, force_cfg_arg = None\<rparr>"
  let ?x = "tadd x (tmap (\<lambda>v. (ts ! s - ts ! (s - 1)) * v) (forward_with_cfg M ?args (guidance_scale M)))"
  from Cons.IH [of ?x "calls @ [(?args, True)]"] obtain new where
    n: "snd (generation_loop M cond dt ts steps (?x, calls @ [(?args, True)])) = (calls @ [(?args, True)]) @ new"
    "length new = length steps"
    "\<forall>c \<in> set new. snd c \<and> cond_time_arg (fst c) = vector [dt] \<and> force_cfg_arg (fst c) = None"
    by blast
  have "snd (generation_loop M cond dt ts (s # steps) (x, calls)) = calls @ ((?args, True) # new)"
    using n(1) by (simp add: Let_def)
  moreover have "length ((?args, True) # new) = length (s # steps)" using n(2) by simp
  moreover have "\<forall>c \<in> set ((?args, True) # new).
      snd c \<and> cond_time_arg (fst c) = vector [dt] \<and> force_cfg_arg (fst c) = None"
    using n(3) by simp
  ultimately show ?case by blast
qed

lemma shape_tadd_same: "shape b = shape a \<Longrightarrow> shape (tadd a b) = shape a"
  by (simp add: tadd_def broadcast_def Let_def broadcast_shape_same)

lemma generation_loop_shape:
  assumes "guided_ok M"
  shows "shape (fst (generation_loop M cond dt ts steps (x, calls))) = shape x"
proof (induction steps arbitrary: x calls)
  case Nil
  then show ?case by simp
next
  case (Cons s steps)
  let ?args = "\<lparr>x_arg = x, timesteps_arg = vector [ts ! (s - 1)], seed_arg = seed_vectors cond,
                 at_feat_arg = at_feat cond, intent_feat_arg = intent_feat cond,
                 cond_time_arg = vector [dt], instance_ids_arg = Some (instance_ids cond),
                 style_features_arg = style_features cond, force_cfg_arg = None\<rparr>"
  let ?speed = "forward_with_cfg M ?args (guidance_scale M)"
  let ?x = "tadd x (tmap (\<lambda>v. (ts ! s - ts ! (s - 1)) * v) ?speed)"
  from assms have "shape ?speed = shape (x_arg ?args)" unfolding guided_ok_def by blast
  then have "shape (tmap (\<lambda>v. (ts ! s - ts ! (s - 1)) * v) ?speed) = shape x"
    by (simp add: tmap_def)
  then have "shape ?x = shape x" by (rule shape_tadd_same)
  with Cons.IH [of ?x "calls @ [(?args, True)]"] show ?case by (simp add: Let_def)
qed

lemma linspace_grid:
  assumes "0 < N"
  shows "length (linspace a b (N + 1)) = N + 1"
    and "k \<le> N \<Longrightarrow> linspace a b (N + 1) ! k = a + real k * (b - a) / real N"
proof -
  let ?f = "\<lambda>i. a + real i * (b - a) / real (N + 1 - 1)"
  from assms have ne: "N + 1 \<noteq> 1" by simp
  then have e: "linspace a b (N + 1) = map ?f [0..<N + 1]"
    by (simp only: linspace_def if_False)
  show "length (linspace a b (N + 1)) = N + 1" unfolding e by simp
  assume "k \<le> N"
  then have k0: "0 + k < N + 1" by simp
  then have k: "k < length [0..<N + 1]" by simp
  have "map ?f [0..<N + 1] ! k = ?f ([0..<N + 1] ! k)" using k by (rule nth_map)
  also have "[0..<N + 1] ! k = k" using nth_upt [OF k0] by (simp only: add_0)
  finally show "linspace a b (N + 1) ! k = a + real k * (b - a) / real N"
    unfolding e by simp
qed

lemma linspace_increasing:
  assumes "0 < N" and "a < b" and "k < N"
  shows "linspace a b (N + 1) ! k < linspace a b (N + 1) ! Suc k"
proof -
  from assms(3) have k: "k \<le> N" "Suc k \<le> N" by simp_all
  have "real k * (b - a) / real N < real (Suc k) * (b - a) / real N"
    using assms(1,2) by (intro divide_strict_right_mono mult_strict_right_mono) simp_all
  then show ?thesis
    unfolding linspace_grid(2) [OF assms(1) k(1)] linspace_grid(2) [OF assms(1) k(2)] by simp
qed

lemma forward_eq:
  assumes "0 < num_inference_steps M"
      and "torch_randn T (prod_list [length (at_feat cond), input_dim M, 1, seq_len M]) g = (noise, g1)"
  shows "forward T M cond g =
     (let x0 = \<lparr>shape = [length (at_feat cond), input_dim M, 1, seq_len M], entries = noise\<rparr>;
          ts = linspace (1 / 10 ^ 8) (1 - 1 / 10 ^ 8) (num_inference_steps M + 1);
          fin = generation_loop M cond (1 / real (num_inference_steps M)) ts [1..<length ts] (x0, [])
      in Inr (\<lparr>seed_out = seed_vectors cond, at_feat_out = at_feat cond,
               intent_feat_out = intent_feat cond, init_noise = x0, latents_out = fst fin,
               grid_of = ts, guided_calls_of = snd fin\<rparr>, g1))"
  using assms by (simp add: forward_def Let_def split: prod.splits)

lemma forward_zero_steps:
  assumes "num_inference_steps M = 0"
  shows "forward T M cond g = Inl ZeroDivisionError"
  using assms by (simp add: forward_def Let_def split: prod.splits)

lemma generation_loop_one_more:
  assumes "k < length steps"
  shows "generation_loop M cond dt ts (take (Suc k) steps) st =
     (let x = fst (generation_loop M cond dt ts (take k steps) st);
          args = \<lparr>x_arg = x, timesteps_arg = vector [ts ! (steps ! k - 1)],
                  seed_arg = seed_vectors cond, at_feat_arg = at_feat cond,
                  intent_feat_arg = intent_feat cond, cond_time_arg = vector [dt],
                  instance_ids_arg = Some (instance_ids cond),
                  style_features_arg = style_features cond, force_cfg_arg = None\<rparr>
      in (tadd x (tmap (\<lambda>v. (ts ! (steps ! k) - ts ! (steps ! k - 1)) * v)
                       (forward_with_cfg M args (guidance_scale M))),
          snd (generation_loop M cond dt ts (take k steps) st) @ [(args, True)]))"
proof -
  obtain x calls where s: "generation_loop M cond dt ts (take k steps) st = (x, calls)"
    by (cases "generation_loop M cond dt ts (take k steps) st")
  have "take (Suc k) steps = take k steps @ [steps ! k]"
    using assms by (rule take_Suc_conv_app_nth)
  then show ?thesis
    by (simp add: generation_loop_append s Let_def)
qed

lemma guided_ok_example: "guided_ok (example_model N)"
  by (simp add: guided_ok_def example_model_def tmap_def)

text \<open>
  C4, as the code has it. With \<open>num_inference_steps = N\<close> and \<open>N\<close> at least one,
  \<open>forward\<close> returns. Its time grid has exactly \<open>N + 1\<close> points, the point of index \<open>k\<close>
  being \<open>\<epsilon> + k (1 - 2 \<epsilon>) / N\<close> with \<open>\<epsilon> = 1e-8\<close>: it starts at \<open>\<epsilon>\<close>, ends at \<open>1 - \<epsilon>\<close>
  and increases strictly, by \<open>(1 - 2 \<epsilon>) / N\<close> per step. The loop makes exactly \<open>N\<close> calls of
  \<open>forward_with_cfg\<close>, all of them inside \<open>torch.no_grad()\<close> and all of them with
  \<open>cond_time = 1 / N\<close>; the call of transition \<open>k\<close> is made at the grid point of index \<open>k\<close> on the
  latent reached so far, and the latent becomes \<open>latent + (grid[k+1] - grid[k]) * speed\<close>. The latent
  returned is the one after \<open>N\<close> transitions and has the shape of the initial noise, for an
  oracle whose velocity has the shape of its input.
\<close>

theorem forward_integrates:
  assumes "guided_ok M" and "0 < num_inference_steps M"
  shows "\<exists>out g'. forward T M cond g = Inr (out, g') \<and>
     (let N = num_inference_steps M;
          eps = 1 / 10 ^ 8;
          grid = grid_of out;
          state = (\<lambda>k. generation_loop M cond (1 / real N) grid (take k [1..<N + 1]) (init_noise out, []))
      in length grid = N + 1 \<and>
         (\<forall>k \<le> N. grid ! k = eps + real k * ((1 - eps) - eps) / real N) \<and>
         grid ! 0 = eps \<and> grid ! N = 1 - eps \<and>
         (\<forall>k < N. grid ! k < grid ! Suc k) \<and>
         (\<forall>k < N. grid ! Suc k - grid ! k = (1 - 2 * eps) / real N) \<and>
         state 0 = (init_noise out, []) \<and>
         state N = (latents_out out, guided_calls_of out) \<and>
         (\<forall>k < N. state (Suc k) =
            (let x = fst (state k);
                 args = \<lparr>x_arg = x, timesteps_arg = vector [grid ! k],
                         seed_arg = seed_vectors cond, at_feat_arg = at_feat cond,
                         intent_feat_arg = intent_feat cond, cond_time_arg = vector [1 / real N],
                         instance_ids_arg = Some (instance_ids cond),
                         style_features_arg = style_features cond, force_cfg_arg = None\<rparr>
             in (tadd x (tmap (\<lambda>v. (grid ! Suc k - grid ! k) * v)
                              (forward_with_cfg M args (guidance_scale M))),
                 snd (state k) @ [(args, True)]))) \<and>
         length (guided_calls_of out) = N \<and>
         (\<forall>c \<in> set (guided_calls_of out). snd c \<and> cond_time_arg (fst c) = vector [1 / real N]) \<and>
         shape (init_noise out) = [length (at_feat cond), input_dim M, 1, seq_len M] \<and>
         shape (latents_out out) = shape (init_noise out))"
proof -
  let ?N = "num_inference_steps M"
  let ?eps = "1 / 10 ^ 8 :: real"
  let ?ts = "linspace ?eps (1 - ?eps) (?N + 1)"
  obtain noise g1 where
    n: "torch_randn T (prod_list [length (at_feat cond), input_dim M, 1, seq_len M]) g = (noise, g1)"
    by (cases "torch_randn T (prod_list [length (at_feat cond), input_dim M, 1, seq_len M]) g")
  let ?x0 = "\<lparr>shape = [length (at_feat cond), input_dim M, 1, seq_len M], entries = noise\<rparr>"
  let ?state = "\<lambda>k. generation_loop M cond (1 / real ?N) ?ts (take k [1..<?N + 1]) (?x0, [])"
  let ?out = "\<lparr>seed_out = seed_vectors cond, at_feat_out = at_feat cond,
               intent_feat_out = intent_feat cond, init_noise = ?x0,
               latents_out = fst (?state ?N), grid_of = ?ts, guided_calls_of = snd (?state ?N)\<rparr>"
  have len: "length ?ts = ?N + 1" by (rule linspace_grid(1) [OF assms(2)])
  have run: "forward T M cond g = Inr (?out, g1)"
    unfolding forward_eq [OF assms(2) n] Let_def len by simp
  have lin: "\<forall>k \<le> ?N. ?ts ! k = ?eps + real k * ((1 - ?eps) - ?eps) / real ?N"
    using linspace_grid(2) [OF assms(2)] by blast
  have first: "?ts ! 0 = ?eps" using lin by simp
  have last: "?ts ! ?N = 1 - ?eps" using lin assms(2) by simp
  have lt: "?eps < 1 - ?eps" by simp
  have inc: "\<forall>k < ?N. ?ts ! k < ?ts ! Suc k"
    using linspace_increasing [OF assms(2) lt] by blast
  have gap: "\<forall>k < ?N. ?ts ! Suc k - ?ts ! k = (1 - 2 * ?eps) / real ?N"
  proof (intro allI impI)
    fix k assume k: "k < ?N"
    then have a: "?ts ! Suc k = ?eps + real (Suc k) * ((1 - ?eps) - ?eps) / real ?N"
      using linspace_grid(2) [OF assms(2), of "Suc k"] by simp
    from k have b: "?ts ! k = ?eps + real k * ((1 - ?eps) - ?eps) / real ?N"
      using linspace_grid(2) [OF assms(2), of k] by simp
    have c: "(e + real (Suc k) * ((1 - e) - e) / n) - (e + real k * ((1 - e) - e) / n)
               = (1 - 2 * e) / n" for e n :: real
      by (simp add: algebra_simps add_divide_distrib diff_divide_distrib)
    show "?ts ! Suc k - ?ts ! k = (1 - 2 * ?eps) / real ?N"
      unfolding a b by (rule c)
  qed
  have s0: "?state 0 = (?x0, [])" by simp
  have sN: "?state ?N = (fst (?state ?N), snd (?state ?N))" by simp
  have step: "?state (Suc k) =
            (let x = fst (?state k);
                 args = \<lparr>x_arg = x, timesteps_arg = vector [?ts ! k],
                         seed_arg = seed_vectors cond, at_feat_arg = at_feat cond,
                         intent_feat_arg = intent_feat cond, cond_time_arg = vector [1 / real ?N],
                         instance_ids_arg = Some (instance_ids cond),
                         style_features_arg = style_features cond, force_cfg_arg = None\<rparr>
             in (tadd x (tmap (\<lambda>v. (?ts ! Suc k - ?ts ! k) * v)
                              (forward_with_cfg M args (guidance_scale M))),
                 snd (?state k) @ [(args, True)]))" if "k < ?N" for k
  proof -
    from that have k: "k < length [1..<?N + 1]" by simp
    from that have "1 + k < ?N + 1" by simp
    then have "[1..<?N + 1] ! k = 1 + k" by (rule nth_upt)
    then have nth: "[1..<?N + 1] ! k = Suc k" by simp
    show ?thesis
      unfolding generation_loop_one_more [OF k] nth by simp
  qed
  have full: "take ?N [1..<?N + 1] = [1..<?N + 1]" by simp
  from generation_loop_calls [of M cond "1 / real ?N" ?ts "[1..<?N + 1]" ?x0 "[]"]
  obtain new where
    new: "snd (generation_loop M cond (1 / real ?N) ?ts [1..<?N + 1] (?x0, [])) = [] @ new"
      "length new = length [1..<?N + 1]"
      "\<forall>c \<in> set new. snd c \<and> cond_time_arg (fst c) = vector [1 / real ?N] \<and> force_cfg_arg (fst c) = None"
    by blast
  have calls: "length (snd (?state ?N)) = ?N"
    "\<forall>c \<in> set (snd (?state ?N)). snd c \<and> cond_time_arg (fst c) = vector [1 / real ?N]"
    unfolding full using new by simp_all
  have shp: "shape (fst (?state ?N)) = shape ?x0"
    by (rule generation_loop_shape [OF assms(1)])
  have "(let N = num_inference_steps M;
          eps = 1 / 10 ^ 8;
          grid = grid_of ?out;
          state = (\<lambda>k. generation_loop M cond (1 / real N) grid (take k [1..<N + 1]) (init_noise ?out, []))
      in length grid = N + 1 \<and>
         (\<forall>k \<le> N. grid ! k = eps + real k * ((1 - eps) - eps) / real N) \<and>
         grid ! 0 = eps \<and> grid ! N = 1 - eps \<and>
         (\<forall>k < N. grid ! k < grid ! Suc k) \<and>
         (\<forall>k < N. grid ! Suc k - grid ! k = (1 - 2 * eps) / real N) \<and>
         state 0 = (init_noise ?out, []) \<and>
         state N = (latents_out ?out, guided_calls_of ?out) \<and>
         (\<forall>k < N. state (Suc k) =
            (let x = fst (state k);
                 args = \<lparr>x_arg = x, timesteps_arg = vector [grid ! k],
                         seed_arg = seed_vectors cond, at_feat_arg = at_feat cond,
                         intent_feat_arg = intent_feat cond, cond_time_arg = vector [1 / real N],
                         instance_ids_arg = Some (instance_ids cond),
                         style_features_arg = style_features cond, force_cfg_arg = None\<rparr>
             in (tadd x (tmap (\<lambda>v. (grid ! Suc k - grid ! k) * v)
                              (forward_with_cfg M args (guidance_scale M))),
                 snd (state k) @ [(args, True)]))) \<and>
         length (guided_calls_of ?out) = N \<and>
         (\<forall>c \<in> set (guided_calls_of ?out). snd c \<and> cond_time_arg (fst c) = vector [1 / real N]) \<and>
         shape (init_noise ?out) = [length (at_feat cond), input_dim M, 1, seq_len M] \<and>
         shape (latents_out ?out) = shape (init_noise ?out))"
    unfolding Let_def generated.select_convs
  proof (intro conjI)
    show "length ?ts = ?N + 1" by (rule len)
    show "\<forall>k \<le> ?N. ?ts ! k = ?eps + real k * ((1 - ?eps) - ?eps) / real ?N" by (rule lin)
    show "?ts ! 0 = ?eps" by (rule first)
    show "?ts ! ?N = 1 - ?eps" by (rule last)
    show "\<forall>k < ?N. ?ts ! k < ?ts ! Suc k" by (rule inc)
    show "\<forall>k < ?N. ?ts ! Suc k - ?ts ! k = (1 - 2 * ?eps) / real ?N" by (rule gap)
    show "?state 0 = (?x0, [])" by (rule s0)
    show "?state ?N = (fst (?state ?N), snd (?state ?N))" by (rule sN)
    show "\<forall>k < ?N. ?state (Suc k) =
            (tadd (fst (?state k))
               (tmap (\<lambda>v. (?ts ! Suc k - ?ts ! k) * v)
                  (forward_with_cfg M
                     \<lparr>x_arg = fst (?state k), timesteps_arg = vector [?ts ! k],
                         seed_arg = seed_vectors cond, at_feat_arg = at_feat cond,
                         intent_feat_arg = intent_feat cond, cond_time_arg = vector [1 / real ?N],
                         instance_ids_arg = Some (instance_ids cond),
                         style_features_arg = style_features cond, force_cfg_arg = None\<rparr>
                     (guidance_scale M))),
             snd (?state k) @
               [(\<lparr>x_arg = fst (?state k), timesteps_arg = vector [?ts ! k],
                         seed_arg = seed_vectors cond, at_feat_arg = at_feat cond,
                         intent_feat_arg = intent_feat cond, cond_time_arg = vector [1 / real ?N],
                         instance_ids_arg = Some (instance_ids cond),
                         style_features_arg = style_features cond, force_cfg_arg = None\<rparr>, True)])"
      using step [unfolded Let_def] by blast
    show "length (snd (?state ?N)) = ?N" by (rule calls(1))
    show "\<forall>c \<in> set (snd (?state ?N)). snd c \<and> cond_time_arg (fst c) = vector [1 / real ?N]"
      by (rule calls(2))
    show "shape ?x0 = [length (at_feat cond), input_dim M, 1, seq_len M]" by simp
    show "shape (fst (?state ?N)) = shape ?x0" by (rule shp)
  qed
  with run show ?thesis by blast
qed

theorem forward_integrates_witness:
  "guided_ok (example_model 2) \<and> 0 < num_inference_steps (example_model 2) \<and>
   (\<exists>out g'. forward tape_rng (example_model 2) (example_cond 2) ([0, 0], []) = Inr (out, g') \<and>
      length (grid_of out) = 3 \<and> grid_of out ! 0 = 1 / 10 ^ 8 \<and> grid_of out ! 2 = 1 - 1 / 10 ^ 8 \<and>
      length (guided_calls_of out) = 2 \<and> shape (init_noise out) = [2, 1, 1, 1] \<and>
      shape (latents_out out) = shape (init_noise out))"
proof -
  have n: "num_inference_steps (example_model 2) = 2" by (simp add: example_model_def)
  have p: "0 < num_inference_steps (example_model 2)" by (simp add: n)
  have m: "input_dim (example_model 2) = 1" "seq_len (example_model 2) = 1"
    by (simp_all add: example_model_def)
  have b: "length (at_feat (example_cond 2)) = 2" by (simp add: example_cond_def)
  from forward_integrates [OF guided_ok_example p, of tape_rng "example_cond 2" "([0, 0], [])"]
  obtain out g' where
    r: "forward tape_rng (example_model 2) (example_cond 2) ([0, 0], []) = Inr (out, g')"
    and f: "length (grid_of out) = 2 + 1" "grid_of out ! 0 = 1 / 10 ^ 8"
      "grid_of out ! 2 = 1 - 1 / 10 ^ 8" "length (guided_calls_of out) = 2"
      "shape (init_noise out) = [2, 1, 1, 1]"
      "shape (latents_out out) = shape (init_noise out)"
    unfolding Let_def n m b by blast
  from f(1) have l: "length (grid_of out) = 3" by simp
  from r l f(2-6) have "\<exists>out g'. forward tape_rng (example_model 2) (example_cond 2) ([0, 0], []) = Inr (out, g') \<and>
      length (grid_of out) = 3 \<and> grid_of out ! 0 = 1 / 10 ^ 8 \<and> grid_of out ! 2 = 1 - 1 / 10 ^ 8 \<and>
      length (guided_calls_of out) = 2 \<and> shape (init_noise out) = [2, 1, 1, 1] \<and>
      shape (latents_out out) = shape (init_noise out)"
    by (intro exI conjI)
  with guided_ok_example p show ?thesis by (intro conjI)
qed

text \<open>
  C4 as stated fails: with \<open>num_inference_steps = 0\<close> there is no grid and no latent, since
  \<open>1 / self.num_inference_steps\<close> raises a ZeroDivisionError before the grid is built.
\<close>

theorem forward_zero_steps_raises:
  "num_inference_steps (example_model 0) = 0 \<and>
   forward tape_rng (example_model 0) (example_cond 2) ([0, 0], []) = Inl ZeroDivisionError"
proof
  show z: "num_inference_steps (example_model 0) = 0" by (simp add: example_model_def)
  show "forward tape_rng (example_model 0) (example_cond 2) ([0, 0], []) = Inl ZeroDivisionError"
    by (rule forward_zero_steps [OF z])
qed

end
